theory Spec2Isabelle
  imports Complex_Main
begin

section \<open>SkyLand: the simulation tick engine and its state-mutation handlers\<close>

text \<open>
  A shallow embedding of the game logic of \<^verbatim>\<open>App.tsx\<close>, \<^verbatim>\<open>constants.ts\<close> and
  \<^verbatim>\<open>types.ts\<close>.

  Conventions of the embedding:
  \<^item> names are the source's, but for those that clash: the building type \<^verbatim>\<open>None\<close> is
    \<open>NoneB\<close>; the coordinates of a tile are \<open>tile_x\<close> and \<open>tile_y\<close>; fields that two
    interfaces share carry a prefix (\<open>goal_description\<close>, \<open>goal_buildingType\<close>,
    \<open>news_text\<close>, \<open>news_type\<close>, \<open>proposal_id\<close>, \<open>proposal_description\<close>, \<open>btype\<close>); the
    target types \<^verbatim>\<open>'population'\<close> and \<^verbatim>\<open>'money'\<close> are \<open>target_population\<close> and
    \<open>target_money\<close>;
  \<^item> a JavaScript \<^verbatim>\<open>number\<close> that holds an amount (money, population, token balance,
    price, modifier) is a \<^typ>\<open>real\<close>. The additions and subtractions of the staking
    handlers are rounded to the nearest double (\<open>round64\<close>), as the code computes them:
    whether staking conserves the tokens depends on it. Elsewhere arithmetic is exact;
    counters that only ever start at a natural number and are incremented (day, block
    number, tile level) are \<^typ>\<open>nat\<close>; tile coordinates are \<^typ>\<open>int\<close>;
  \<^item> the React state cells of \<^verbatim>\<open>App\<close> are the fields of one record \<open>game\<close>; a handler
    is a function from the state to the next state; the refs (\<^verbatim>\<open>gridRef\<close>,
    \<^verbatim>\<open>statsRef\<close>, ...) mirror the state cells and are read as the state the handler
    starts from;
  \<^item> a property read on \<^verbatim>\<open>undefined\<close> throws: handlers that index the grid or the
    option list return \<open>error + game\<close>, with \<open>Inl TypeError\<close> for the throw;
  \<^item> \<^verbatim>\<open>Math.random()\<close> is a parameter of the tick;
  \<^item> the news feed and the transaction log are kept as bounded lists; a news text is the
    template with its arguments, the wall-clock identifiers, the random hash and the
    timestamp of an entry are left out;
  \<^item> the calls to the external generation service (\<^verbatim>\<open>fetchNews\<close>, \<^verbatim>\<open>fetchProposal\<close>, the
    body of \<^verbatim>\<open>fetchNewGoal\<close> after its guard) are asynchronous and not part of the tick.
\<close>

subsection \<open>types.ts\<close>

datatype BuildingType =
  NoneB | Road | Residential | Commercial | Industrial | Park | School | Hospital
  | Entertainment

record BuildingConfig =
  btype :: BuildingType
  cost :: real
  name :: string
  description :: string
  color :: string
  popGen :: real
  incomeGen :: real

record TileData =
  tile_x :: int
  tile_y :: int
  buildingType :: BuildingType
  variant :: "nat option"
  level :: nat

type_synonym Grid = "TileData list list"

record CityStats =
  money :: real
  population :: real
  day :: nat

datatype TargetType = target_population | target_money | building_count

record AIGoal =
  goal_description :: string
  targetType :: TargetType
  targetValue :: real
  goal_buildingType :: "BuildingType option"
  reward :: real
  completed :: bool

datatype NewsType = positive | negative | neutral

datatype NewsText =
  Welcome
  | CannotAffordDemolition
  | TreasuryInsufficientFor string
  | UpgradedToLevel string nat
  | InsufficientFundsForUpgrade
  | WalletConnected
  | GoalAchieved real
  | ProposalPassed string

record NewsItem =
  news_text :: NewsText
  news_type :: NewsType

datatype TxType = SWAP | STAKE | UNSTAKE | VOTE | REWARD | DEPLOY

datatype TxDetails = Staked real | Unstaked real | Voted string | ContractDeployed string

record Transaction =
  tx_type :: TxType
  tx_details :: TxDetails
  tx_block :: nat

datatype Risk = Low | Medium | Critical

record AuditResult =
  score :: nat
  risk :: Risk
  analysis :: string

datatype EffectType = tax_break | population_boom | austerity | festival

record ProposalOption =
  label :: string
  effectDescription :: string
  effectType :: EffectType

datatype ProposalStatus = active | passed | rejected

record DAOProposal =
  proposal_id :: string
  title :: string
  proposal_description :: string
  options :: "ProposalOption list"
  expiresAt :: nat
  votes :: "nat \<times> nat"
  status :: ProposalStatus
  soliditySnippet :: "string option"
  audit :: "AuditResult option"

record Web3State =
  isConnected :: bool
  address :: "string option"
  skyBalance :: real
  stakedSky :: real
  skyPrice :: real
  blockNumber :: nat

record GameModifiers =
  taxRate :: real
  growthRate :: real

subsection \<open>constants.ts\<close>

definition GRID_SIZE :: nat where
  "GRID_SIZE = 15"

definition INITIAL_MONEY :: real where
  "INITIAL_MONEY = 1000"

fun BUILDINGS :: "BuildingType \<Rightarrow> BuildingConfig" where
  "BUILDINGS NoneB = \<lparr>btype = NoneB, cost = 0, name = ''Bulldoze'',
     description = ''Clear a tile'', color = ''#ef4444'', popGen = 0, incomeGen = 0\<rparr>"
| "BUILDINGS Road = \<lparr>btype = Road, cost = 10, name = ''Road'',
     description = ''Connects buildings.'', color = ''#374151'', popGen = 0, incomeGen = 0\<rparr>"
| "BUILDINGS Residential = \<lparr>btype = Residential, cost = 100, name = ''House'',
     description = ''+5 Pop/day'', color = ''#f87171'', popGen = 5, incomeGen = 0\<rparr>"
| "BUILDINGS Commercial = \<lparr>btype = Commercial, cost = 200, name = ''Shop'',
     description = ''+$15/day'', color = ''#60a5fa'', popGen = 0, incomeGen = 15\<rparr>"
| "BUILDINGS Industrial = \<lparr>btype = Industrial, cost = 400, name = ''Factory'',
     description = ''+$40/day'', color = ''#facc15'', popGen = 0, incomeGen = 40\<rparr>"
| "BUILDINGS Park = \<lparr>btype = Park, cost = 50, name = ''Park'',
     description = ''Looks nice.'', color = ''#4ade80'', popGen = 1, incomeGen = 0\<rparr>"
| "BUILDINGS School = \<lparr>btype = School, cost = 500, name = ''School'',
     description = ''+10 Pop/day'', color = ''#fb923c'', popGen = 10, incomeGen = - 5\<rparr>"
| "BUILDINGS Hospital = \<lparr>btype = Hospital, cost = 800, name = ''Hospital'',
     description = ''+15 Pop/day'', color = ''#f472b6'', popGen = 15, incomeGen = - 10\<rparr>"
| "BUILDINGS Entertainment = \<lparr>btype = Entertainment, cost = 600, name = ''Cinema'',
     description = ''+$25/day'', color = ''#c084fc'', popGen = 2, incomeGen = 25\<rparr>"

subsection \<open>The state of App\<close>

datatype error = TypeError

record game =
  gameStarted :: bool
  aiEnabled :: bool
  grid :: Grid
  stats :: CityStats
  selectedTool :: BuildingType
  selectedTilePos :: "(int \<times> int) option"
  currentGoal :: "AIGoal option"
  isGeneratingGoal :: bool
  newsFeed :: "NewsItem list"
  web3State :: Web3State
  activeProposal :: "DAOProposal option"
  transactions :: "Transaction list"
  isAuditing :: bool
  gameModifiers :: GameModifiers

text \<open>\<^verbatim>\<open>createInitialGrid\<close>: \<open>GRID_SIZE\<close> rows of \<open>GRID_SIZE\<close> empty tiles of level 1.\<close>

definition createInitialGrid :: Grid where
  "createInitialGrid =
     map (\<lambda>y. map (\<lambda>x. \<lparr>tile_x = int x, tile_y = int y, buildingType = NoneB,
                           variant = None, level = 1\<rparr>) [0..<GRID_SIZE]) [0..<GRID_SIZE]"

definition initialGame :: game where
  "initialGame =
     \<lparr>gameStarted = False, aiEnabled = True, grid = createInitialGrid,
      stats = \<lparr>money = INITIAL_MONEY, population = 0, day = 1\<rparr>,
      selectedTool = Road, selectedTilePos = None, currentGoal = None,
      isGeneratingGoal = False, newsFeed = [],
      web3State = \<lparr>isConnected = False, address = None, skyBalance = 0, stakedSky = 0,
                    skyPrice = 50, blockNumber = 1024500\<rparr>,
      activeProposal = None, transactions = [], isAuditing = False,
      gameModifiers = \<lparr>taxRate = 1, growthRate = 1\<rparr>\<rparr>"

text \<open>\<^verbatim>\<open>handleStart\<close>: the start screen fixes the AI toggle and starts the game.\<close>

definition handleStart :: "bool \<Rightarrow> game \<Rightarrow> game" where
  "handleStart enabled s = s\<lparr>aiEnabled := enabled, gameStarted := True\<rparr>"

text \<open>\<^verbatim>\<open>prev.slice(-n)\<close>: the last \<open>n\<close> elements.\<close>

definition slice_last :: "nat \<Rightarrow> 'a list \<Rightarrow> 'a list" where
  "slice_last n xs = drop (length xs - n) xs"

definition addNewsItem :: "NewsItem \<Rightarrow> game \<Rightarrow> game" where
  "addNewsItem item s = s\<lparr>newsFeed := slice_last 12 (newsFeed s) @ [item]\<rparr>"

definition addTransaction :: "TxType \<Rightarrow> TxDetails \<Rightarrow> game \<Rightarrow> game" where
  "addTransaction ty details s =
     s\<lparr>transactions := slice_last 19 (transactions s)
          @ [\<lparr>tx_type = ty, tx_details = details,
               tx_block = blockNumber (web3State s)\<rparr>]\<rparr>"

subsection \<open>The game loop\<close>

text \<open>
  \<^verbatim>\<open>tile.level || 1\<close>: a level of 0 is falsy and counts as 1. (Every tile that App
  builds carries a level, so the case of a missing level does not arise.)
\<close>

definition levelOr1 :: "TileData \<Rightarrow> nat" where
  "levelOr1 tile = (if level tile = 0 then 1 else level tile)"

text \<open>\<^verbatim>\<open>buildingCounts[k] || 0\<close>.\<close>

definition orZero :: "nat option \<Rightarrow> nat" where
  "orZero c = (case c of None \<Rightarrow> 0 | Some n \<Rightarrow> n)"

text \<open>
  The body of the first \<^verbatim>\<open>forEach\<close>, on the accumulators
  \<open>(dailyIncome, dailyPopGrowth, buildingCounts)\<close>.
\<close>

definition scanTile ::
  "TileData \<Rightarrow> real \<times> real \<times> (BuildingType \<rightharpoonup> nat) \<Rightarrow> real \<times> real \<times> (BuildingType \<rightharpoonup> nat)"
where
  "scanTile tile acc =
     (case acc of (dailyIncome, dailyPopGrowth, buildingCounts) \<Rightarrow>
        if buildingType tile \<noteq> NoneB then
          let config = BUILDINGS (buildingType tile);
              lvl = levelOr1 tile
          in (dailyIncome + incomeGen config * real lvl,
              dailyPopGrowth + popGen config * real lvl,
              buildingCounts(buildingType tile \<mapsto>
                 orZero (buildingCounts (buildingType tile)) + 1))
        else acc)"

definition scanTiles :: "Grid \<Rightarrow> real \<times> real \<times> (BuildingType \<rightharpoonup> nat)" where
  "scanTiles g = fold scanTile (concat g) (0, 0, Map.empty)"

text \<open>The income of the tick, after the DAO modifier.\<close>

definition dailyIncome :: "game \<Rightarrow> real" where
  "dailyIncome s = fst (scanTiles (grid s)) * taxRate (gameModifiers s)"

text \<open>The population growth of the tick, after the DAO modifier and the staking reward.\<close>

definition dailyPopGrowth :: "game \<Rightarrow> real" where
  "dailyPopGrowth s =
     (let growth = fst (snd (scanTiles (grid s))) * growthRate (gameModifiers s)
      in if stakedSky (web3State s) > 0
         then let stakeBonus = 1 + stakedSky (web3State s) / 1000 in growth * stakeBonus
         else growth)"

definition buildingCounts :: "game \<Rightarrow> BuildingType \<rightharpoonup> nat" where
  "buildingCounts s = snd (snd (scanTiles (grid s)))"

text \<open>The body of the second \<^verbatim>\<open>forEach\<close> and its loop.\<close>

definition capTile :: "TileData \<Rightarrow> real \<Rightarrow> real" where
  "capTile tile housingCap =
     (if buildingType tile = Residential then housingCap + 50 * real (levelOr1 tile)
      else housingCap)"

definition housingCap :: "Grid \<Rightarrow> real" where
  "housingCap g = fold capTile (concat g) 0"

text \<open>
  The updater passed to \<^verbatim>\<open>setStats\<close>, without the goal check. Its first two lines, the
  sum and the limit by the housing capacity:
\<close>

definition clampPopulation :: "real \<Rightarrow> real \<Rightarrow> real \<Rightarrow> real" where
  "clampPopulation prevPop growth cap =
     (let newPop = prevPop + growth
      in if newPop > cap then cap else newPop)"

text \<open>and its third line, "people leave if no homes":\<close>

definition newPopulation :: "real \<Rightarrow> real \<Rightarrow> real \<Rightarrow> real" where
  "newPopulation prevPop growth cap =
     (let newPop = clampPopulation prevPop growth cap
      in if cap = 0 \<and> prevPop > 0 then max 0 (prevPop - 5) else newPop)"

definition newStats :: "game \<Rightarrow> CityStats" where
  "newStats s =
     \<lparr>money = money (stats s) + dailyIncome s,
      population = newPopulation (population (stats s)) (dailyPopGrowth s) (housingCap (grid s)),
      day = day (stats s) + 1\<rparr>"

text \<open>Step 3 of the loop: the goal check, inside the \<^verbatim>\<open>setStats\<close> updater.\<close>

definition isMet :: "AIGoal \<Rightarrow> CityStats \<Rightarrow> (BuildingType \<rightharpoonup> nat) \<Rightarrow> bool" where
  "isMet goal ns counts =
     ((targetType goal = target_money \<and> money ns \<ge> targetValue goal)
      \<or> (targetType goal = target_population \<and> population ns \<ge> targetValue goal)
      \<or> (targetType goal = building_count \<and>
          (case goal_buildingType goal of
             None \<Rightarrow> False
           | Some b \<Rightarrow> real (orZero (counts b)) \<ge> targetValue goal)))"

definition checkGoal :: "game \<Rightarrow> AIGoal option" where
  "checkGoal s =
     (case currentGoal s of
        None \<Rightarrow> None
      | Some goal \<Rightarrow>
          if aiEnabled s \<and> \<not> completed goal then
            if isMet goal (newStats s) (buildingCounts s)
            then Some (goal\<lparr>completed := True\<rparr>)
            else Some goal
          else Some goal)"

text \<open>
  Step 4 of the loop: mining. \<^verbatim>\<open>statsRef.current\<close> is synchronised after the render, so
  inside the interval callback it still holds the stats the tick started from.
  \<open>rnd\<close> is the value of \<^verbatim>\<open>Math.random()\<close>.
\<close>

definition mine :: "real \<Rightarrow> game \<Rightarrow> Web3State" where
  "mine rnd s =
     (if isConnected (web3State s) then
        (web3State s)
          \<lparr>skyBalance := skyBalance (web3State s) + (population (stats s) / 100) * 0.1,
           skyPrice := max 10 (skyPrice (web3State s) + (rnd - 0.5) * 2),
           blockNumber := blockNumber (web3State s) + 1\<rparr>
      else web3State s)"

text \<open>
  One firing of the interval callback. The interval is installed once the game has
  started.
\<close>

definition tick :: "real \<Rightarrow> game \<Rightarrow> game" where
  "tick rnd s = s\<lparr>stats := newStats s, currentGoal := checkGoal s, web3State := mine rnd s\<rparr>"





subsection \<open>Interaction logic\<close>

text \<open>
  \<^verbatim>\<open>grid[y][x]\<close>: \<open>None\<close> where the row or the tile is \<^verbatim>\<open>undefined\<close>; the read of a
  property of that \<^verbatim>\<open>undefined\<close> then throws.
\<close>

definition tileAt :: "Grid \<Rightarrow> int \<Rightarrow> int \<Rightarrow> TileData option" where
  "tileAt g x y =
     (if 0 \<le> y \<and> nat y < length g \<and> 0 \<le> x \<and> nat x < length (g ! nat y)
      then Some (g ! nat y ! nat x) else None)"

text \<open>\<^verbatim>\<open>newGrid = grid.map(row => [...row]); newGrid[y][x] = tile\<close>, for a tile in range.\<close>

definition setTile :: "Grid \<Rightarrow> int \<Rightarrow> int \<Rightarrow> TileData \<Rightarrow> Grid" where
  "setTile g x y tile = g[nat y := (g ! nat y)[nat x := tile]]"

text \<open>
  \<^verbatim>\<open>handleTileClick\<close>. The selection branch of the source is an \<^verbatim>\<open>if\<close> on the tool and
  the tile being occupied, around an \<^verbatim>\<open>if\<close> on the tile not being a road that selects and
  returns; in every other case control falls through to the bulldoze and placement logic.
\<close>

definition demolishCost :: real where
  "demolishCost = 5"

definition handleTileClick :: "int \<Rightarrow> int \<Rightarrow> game \<Rightarrow> error + game" where
  "handleTileClick x y s =
     (if \<not> gameStarted s then Inr s
      else if x < 0 \<or> x \<ge> int GRID_SIZE \<or> y < 0 \<or> y \<ge> int GRID_SIZE then Inr s
      else
        case tileAt (grid s) x y of
          None \<Rightarrow> Inl TypeError
        | Some currentTile \<Rightarrow>
            let tool = selectedTool s;
                buildingConfig = BUILDINGS tool
            in
              if tool \<noteq> NoneB \<and> buildingType currentTile \<noteq> NoneB
                 \<and> buildingType currentTile \<noteq> Road
              then Inr (s\<lparr>selectedTilePos := Some (x, y)\<rparr>)
              else if tool = NoneB then
                (if buildingType currentTile \<noteq> NoneB then
                   if money (stats s) \<ge> demolishCost then
                     Inr (s\<lparr>selectedTilePos :=
                               (if selectedTilePos s = Some (x, y) then None
                                else selectedTilePos s),
                             grid := setTile (grid s) x y
                               (currentTile\<lparr>buildingType := NoneB, level := 1\<rparr>),
                             stats := (stats s)\<lparr>money := money (stats s) - demolishCost\<rparr>\<rparr>)
                   else
                     Inr (addNewsItem
                            \<lparr>news_text = CannotAffordDemolition, news_type = negative\<rparr> s)
                 else Inr s)
              else if buildingType currentTile = NoneB then
                (if money (stats s) \<ge> cost buildingConfig then
                   Inr (s\<lparr>selectedTilePos := None,
                           stats := (stats s)\<lparr>money := money (stats s) - cost buildingConfig\<rparr>,
                           grid := setTile (grid s) x y
                             (currentTile\<lparr>buildingType := tool, level := 1\<rparr>)\<rparr>)
                 else
                   Inr (addNewsItem
                          \<lparr>news_text = TreasuryInsufficientFor (name buildingConfig),
                           news_type = negative\<rparr> s))
              else Inr s)"

text \<open>Cost scales with level: \<^verbatim>\<open>Math.floor(config.cost * Math.pow(1.5, currentLevel))\<close>.\<close>

definition upgradeCost :: "TileData \<Rightarrow> real" where
  "upgradeCost tile =
     of_int \<lfloor>cost (BUILDINGS (buildingType tile)) * 1.5 ^ levelOr1 tile\<rfloor>"

definition handleUpgrade :: "game \<Rightarrow> error + game" where
  "handleUpgrade s =
     (case selectedTilePos s of
        None \<Rightarrow> Inr s
      | Some (x, y) \<Rightarrow>
          (case tileAt (grid s) x y of
             None \<Rightarrow> Inl TypeError
           | Some tile \<Rightarrow>
               let config = BUILDINGS (buildingType tile);
                   currentLevel = levelOr1 tile
               in
                 if money (stats s) \<ge> upgradeCost tile then
                   Inr (addNewsItem
                          \<lparr>news_text = UpgradedToLevel (name config) (currentLevel + 1),
                           news_type = positive\<rparr>
                          (s\<lparr>stats := (stats s)\<lparr>money := money (stats s) - upgradeCost tile\<rparr>,
                             grid := setTile (grid s) x y (tile\<lparr>level := currentLevel + 1\<rparr>)\<rparr>))
                 else
                   Inr (addNewsItem
                          \<lparr>news_text = InsufficientFundsForUpgrade, news_type = negative\<rparr> s)))"

definition handleSelectTool :: "BuildingType \<Rightarrow> game \<Rightarrow> game" where
  "handleSelectTool tool s = s\<lparr>selectedTool := tool, selectedTilePos := None\<rparr>"

text \<open>\<^verbatim>\<open>onCloseSelection\<close>.\<close>

definition closeSelection :: "game \<Rightarrow> game" where
  "closeSelection s = s\<lparr>selectedTilePos := None\<rparr>"

subsection \<open>Web3 handlers\<close>

text \<open>
  \<^verbatim>\<open>handleConnectWallet\<close>, up to its \<^verbatim>\<open>await\<close>: the wallet is connected and 100 SKY are
  airdropped.
\<close>

definition handleConnectWallet :: "game \<Rightarrow> game" where
  "handleConnectWallet s =
     addNewsItem \<lparr>news_text = WalletConnected, news_type = positive\<rparr>
       (s\<lparr>web3State := (web3State s)
             \<lparr>isConnected := True, address := Some ''0x71C...9A23'', skyBalance := 100\<rparr>\<rparr>)"

text \<open>
  The arithmetic of doubles. \<open>rne\<close> rounds a real to the nearest integer, a tie to the
  even one. \<open>round64\<close> rounds a real to the nearest double (53 significant bits, the
  exponent of the last bit at least -1074, ties to even); \<open>a - b\<close> and \<open>a + b\<close> on
  doubles are \<open>round64\<close> of the exact result. Results of magnitude \<open>2 ^ 1024\<close> and
  beyond (\<^verbatim>\<open>Infinity\<close>) and \<^verbatim>\<open>NaN\<close> are not modelled.
\<close>

definition rne :: "real \<Rightarrow> int" where
  "rne x =
     (let f = \<lfloor>x\<rfloor>; d = x - of_int f
      in if d < 1 / 2 then f
         else if 1 / 2 < d then f + 1
         else if even f then f else f + 1)"

definition round64 :: "real \<Rightarrow> real" where
  "round64 x =
     (if x = 0 then 0
      else let e = max (\<lfloor>log 2 \<bar>x\<bar>\<rfloor> - 52) (- 1074)
           in of_int (rne (x / 2 powr of_int e)) * 2 powr of_int e)"

definition handleStake :: "real \<Rightarrow> game \<Rightarrow> game" where
  "handleStake amount s =
     (if skyBalance (web3State s) \<ge> amount then
        addTransaction STAKE (Staked amount)
          (s\<lparr>web3State := (web3State s)
                \<lparr>skyBalance := round64 (skyBalance (web3State s) - amount),
                 stakedSky := round64 (stakedSky (web3State s) + amount)\<rparr>\<rparr>)
      else s)"

definition handleUnstake :: "real \<Rightarrow> game \<Rightarrow> game" where
  "handleUnstake amount s =
     (if stakedSky (web3State s) \<ge> amount then
        addTransaction UNSTAKE (Unstaked amount)
          (s\<lparr>web3State := (web3State s)
                \<lparr>skyBalance := round64 (skyBalance (web3State s) + amount),
                 stakedSky := round64 (stakedSky (web3State s) - amount)\<rparr>\<rparr>)
      else s)"

text \<open>The four \<^verbatim>\<open>if\<close>s of \<^verbatim>\<open>handleVote\<close> under "Apply Effects".\<close>

definition applyEffect :: "EffectType \<Rightarrow> game \<Rightarrow> game" where
  "applyEffect e s =
     (let s1 = (if e = tax_break
                then s\<lparr>gameModifiers := (gameModifiers s)\<lparr>taxRate := 1.2\<rparr>\<rparr> else s);
          s2 = (if e = population_boom
                then s1\<lparr>gameModifiers := (gameModifiers s1)\<lparr>growthRate := 1.5\<rparr>\<rparr> else s1);
          s3 = (if e = austerity
                then s2\<lparr>gameModifiers := (gameModifiers s2)\<lparr>taxRate := 0.8, growthRate := 0.8\<rparr>\<rparr>
                else s2)
      in if e = festival
         then s3\<lparr>stats := (stats s3)\<lparr>money := money (stats s3) - 500\<rparr>,
                 gameModifiers := (gameModifiers s3)\<lparr>growthRate := 2.0\<rparr>\<rparr>
         else s3)"

definition handleVote :: "nat \<Rightarrow> game \<Rightarrow> error + game" where
  "handleVote optionIndex s =
     (case activeProposal s of
        None \<Rightarrow> Inr s
      | Some proposal \<Rightarrow>
          if optionIndex < length (options proposal) then
            let choice = options proposal ! optionIndex;
                s1 = addNewsItem
                       \<lparr>news_text = ProposalPassed (label choice), news_type = positive\<rparr> s;
                s2 = addTransaction VOTE (Voted (label choice)) s1;
                s3 = addTransaction DEPLOY (ContractDeployed (title proposal)) s2;
                s4 = applyEffect (effectType choice) s3
            in Inr (s4\<lparr>activeProposal := None\<rparr>)
          else Inl TypeError)"

subsection \<open>Predicates and example states used in the statements\<close>

definition occupied :: "TileData \<Rightarrow> bool" where
  "occupied tile = (buildingType tile \<noteq> NoneB)"

text \<open>
  The selection, when there is one, points at a tile of the grid that holds a building
  other than a road. \<^verbatim>\<open>setSelectedTilePos\<close> is only ever called with such a position
  (the selection branch of \<^verbatim>\<open>handleTileClick\<close>) or with \<^verbatim>\<open>null\<close>.
\<close>

definition selection_ok :: "game \<Rightarrow> bool" where
  "selection_ok s =
     (case selectedTilePos s of
        None \<Rightarrow> True
      | Some (x, y) \<Rightarrow>
          (case tileAt (grid s) x y of
             None \<Rightarrow> False
           | Some tile \<Rightarrow> buildingType tile \<noteq> NoneB \<and> buildingType tile \<noteq> Road))"

text \<open>The game after \<^verbatim>\<open>handleStart(true)\<close>: every tile empty, 1000 in the treasury, day 1.\<close>

definition emptyCity :: game where
  "emptyCity = handleStart True initialGame"

text \<open>The started game with one building of type \<open>b\<close> and level \<open>n\<close> on the tile (0, 0).\<close>

definition cornerTile :: "BuildingType \<Rightarrow> nat \<Rightarrow> TileData" where
  "cornerTile b n = \<lparr>tile_x = 0, tile_y = 0, buildingType = b, variant = None, level = n\<rparr>"

definition cityWith :: "BuildingType \<Rightarrow> nat \<Rightarrow> game" where
  "cityWith b n = emptyCity\<lparr>grid := setTile createInitialGrid 0 0 (cornerTile b n)\<rparr>"

text \<open>
  The state after selecting the School tool in the fresh game and clicking the tile (0, 0):
  the school is placed and its cost of 500 is paid.
\<close>

definition schoolCity :: game where
  "schoolCity = (cityWith School 1)
     \<lparr>selectedTool := School, stats := \<lparr>money = 500, population = 0, day = 1\<rparr>\<rparr>"


definition festivalProposal :: DAOProposal where
  "festivalProposal =
     \<lparr>proposal_id = ''1'', title = ''Sky Festival'',
      proposal_description = ''Celebrate or cut taxes'',
      options = [\<lparr>label = ''Hold the festival'', effectDescription = ''Growth doubles'',
                  effectType = festival\<rparr>,
                 \<lparr>label = ''Cut taxes'', effectDescription = ''Income rises'',
                  effectType = tax_break\<rparr>],
      expiresAt = 6, votes = (0, 0), status = active, soliditySnippet = None,
      audit = None\<rparr>"

text \<open>Every tile of the grid has a level of at least 1.\<close>

definition levels_ok :: "Grid \<Rightarrow> bool" where
  "levels_ok g = (\<forall>tile \<in> set (concat g). 1 \<le> level tile)"

text \<open>
  The states the handlers can produce from the initial one. The last rule stands for the
  handlers and the completions of asynchronous calls that are not modelled one by one
  (claiming a reward, swapping, auditing, a new goal, news item or proposal arriving):
  none of them writes the grid or the selection.
\<close>

inductive reachable :: "game \<Rightarrow> bool" where
  reachable_init: "reachable initialGame"
| reachable_start: "reachable s \<Longrightarrow> reachable (handleStart enabled s)"
| reachable_tick: "reachable s \<Longrightarrow> reachable (tick rnd s)"
| reachable_click: "reachable s \<Longrightarrow> handleTileClick x y s = Inr s' \<Longrightarrow> reachable s'"
| reachable_upgrade: "reachable s \<Longrightarrow> handleUpgrade s = Inr s' \<Longrightarrow> reachable s'"
| reachable_tool: "reachable s \<Longrightarrow> reachable (handleSelectTool tool s)"
| reachable_close: "reachable s \<Longrightarrow> reachable (closeSelection s)"
| reachable_connect: "reachable s \<Longrightarrow> reachable (handleConnectWallet s)"
| reachable_stake: "reachable s \<Longrightarrow> reachable (handleStake amount s)"
| reachable_unstake: "reachable s \<Longrightarrow> reachable (handleUnstake amount s)"
| reachable_vote: "reachable s \<Longrightarrow> handleVote i s = Inr s' \<Longrightarrow> reachable s'"
| reachable_other:
    "reachable s \<Longrightarrow> grid s' = grid s \<Longrightarrow> selectedTilePos s' = selectedTilePos s \<Longrightarrow>
     reachable s'"



text \<open>
  \<^verbatim>\<open>Number("0.1")\<close>, and the wallet after connecting and staking 0.1 once and twice.
\<close>

definition tenth :: real where
  "tenth = round64 (1 / 10)"

definition stakedOnce :: game where
  "stakedOnce = handleStake tenth (handleConnectWallet emptyCity)"

definition stakedTwice :: game where
  "stakedTwice = handleStake tenth stakedOnce"

text \<open>and after staking 0.1 eight times.\<close>

definition stakedEight :: game where
  "stakedEight =
     handleStake tenth (handleStake tenth (handleStake tenth (handleStake tenth
       (handleStake tenth (handleStake tenth stakedTwice)))))"


section \<open>Auxiliary facts\<close>

subsection \<open>The loops of the tick as sums over the tiles\<close>

lemma fold_scanTile_income:
  "fst (fold scanTile ts acc) =
     fst acc + (\<Sum>t\<leftarrow>filter occupied ts. incomeGen (BUILDINGS (buildingType t)) * real (levelOr1 t))"
  by (induction ts arbitrary: acc) (auto simp: scanTile_def occupied_def Let_def split: prod.splits)

lemma fold_scanTile_pop:
  "fst (snd (fold scanTile ts acc)) =
     fst (snd acc) + (\<Sum>t\<leftarrow>filter occupied ts. popGen (BUILDINGS (buildingType t)) * real (levelOr1 t))"
  by (induction ts arbitrary: acc) (auto simp: scanTile_def occupied_def Let_def split: prod.splits)


lemma fold_capTile:
  "fold capTile ts c =
     c + (\<Sum>t\<leftarrow>filter (\<lambda>t. buildingType t = Residential) ts. 50 * real (levelOr1 t))"
  by (induction ts arbitrary: c) (auto simp: capTile_def)

subsection \<open>Reading and writing tiles\<close>

lemma initial_tiles_empty:
  "t \<in> set (concat createInitialGrid) \<Longrightarrow> buildingType t = NoneB"
  by (auto simp: createInitialGrid_def)

lemma createInitialGrid_shape:
  "\<exists>e r rest. createInitialGrid = (e # r) # rest \<and> buildingType e = NoneB"
  by (simp add: createInitialGrid_def GRID_SIZE_def upt_rec [of 0 15])

lemma concat_corner:
  "\<exists>ts. concat (setTile createInitialGrid 0 0 t) = t # ts \<and> (\<forall>u \<in> set ts. buildingType u = NoneB)"
proof -
  obtain e r rest where g: "createInitialGrid = (e # r) # rest"
    using createInitialGrid_shape by blast
  have "set (r @ concat rest) \<subseteq> set (concat createInitialGrid)"
    by (auto simp: g)
  then have "\<forall>u \<in> set (r @ concat rest). buildingType u = NoneB"
    using initial_tiles_empty by blast
  moreover have "concat (setTile createInitialGrid 0 0 t) = t # (r @ concat rest)"
    by (simp add: g setTile_def)
  ultimately show ?thesis by blast
qed

lemma filter_corner:
  assumes "\<And>u. buildingType u = NoneB \<Longrightarrow> \<not> P u"
  shows "filter P (concat (grid (cityWith b n))) = (if P (cornerTile b n) then [cornerTile b n] else [])"
proof -
  obtain ts where ts: "concat (setTile createInitialGrid 0 0 (cornerTile b n)) = cornerTile b n # ts"
    "\<forall>u \<in> set ts. buildingType u = NoneB"
    using concat_corner by blast
  have "filter P ts = []"
    using ts(2) assms by (simp add: filter_empty_conv)
  then show ?thesis
    by (simp add: cityWith_def ts(1))
qed

lemma occupied_cityWith:
  "filter occupied (concat (grid (cityWith b n))) = (if b = NoneB then [] else [cornerTile b n])"
  by (simp add: filter_corner occupied_def cornerTile_def)

lemma residential_cityWith:
  "filter (\<lambda>t. buildingType t = Residential) (concat (grid (cityWith b n)))
     = (if b = Residential then [cornerTile b n] else [])"
  by (simp add: filter_corner cornerTile_def)

lemma tiles_cityWith:
  assumes "t \<in> set (concat (grid (cityWith b n)))"
  shows "buildingType t = b \<or> buildingType t = NoneB"
proof -
  obtain ts where ts: "concat (setTile createInitialGrid 0 0 (cornerTile b n)) = cornerTile b n # ts"
    "\<forall>u \<in> set ts. buildingType u = NoneB"
    using concat_corner by blast
  from assms have "t = cornerTile b n \<or> t \<in> set ts"
    by (simp add: cityWith_def ts(1))
  then show ?thesis
    using ts(2) by (auto simp: cornerTile_def)
qed

lemma tileAt_initial:
  assumes "0 \<le> x" "x < 15" "0 \<le> y" "y < 15"
  shows "tileAt createInitialGrid x y
     = Some \<lparr>tile_x = x, tile_y = y, buildingType = NoneB, variant = None, level = 1\<rparr>"
proof -
  have "nat x < 15" "nat y < 15"
    using assms by linarith+
  then show ?thesis
    using assms by (simp add: tileAt_def createInitialGrid_def GRID_SIZE_def)
qed

lemma tileAt_setTile:
  assumes "tileAt g x y = Some t"
  shows "tileAt (setTile g x y t') x' y' = (if x' = x \<and> y' = y then Some t' else tileAt g x' y')"
proof -
  from assms have r: "0 \<le> y" "nat y < length g" "0 \<le> x" "nat x < length (g ! nat y)"
    by (simp_all add: tileAt_def split: if_splits)
  show ?thesis
  proof (cases "0 \<le> y' \<and> 0 \<le> x'")
    case False
    with r show ?thesis
      by (auto simp: tileAt_def)
  next
    case True
    then have eqs: "nat y' = nat y \<longleftrightarrow> y' = y" "nat x' = nat x \<longleftrightarrow> x' = x"
      "nat y = nat y' \<longleftrightarrow> y' = y" "nat x = nat x' \<longleftrightarrow> x' = x"
      using r by linarith+
    show ?thesis
    proof (cases "y' = y")
      case False
      with eqs True show ?thesis
        by (simp add: tileAt_def setTile_def)
    next
      case True
      with eqs r \<open>0 \<le> y' \<and> 0 \<le> x'\<close> show ?thesis
        by (simp add: tileAt_def setTile_def nth_list_update)
    qed
  qed
qed

lemma tileAt_cityWith:
  "tileAt (grid (cityWith b n)) 0 0 = Some (cornerTile b n)"
  by (simp add: cityWith_def tileAt_setTile [OF tileAt_initial])

lemmas city_defs = cityWith_def emptyCity_def handleStart_def initialGame_def INITIAL_MONEY_def

subsection \<open>The example states\<close>

lemma tileAt_emptyCity:
  "tileAt (grid emptyCity) 0 0
     = Some \<lparr>tile_x = 0, tile_y = 0, buildingType = NoneB, variant = None, level = 1\<rparr>"
  by (simp add: city_defs tileAt_initial)

lemma schoolCity_reached:
  "handleTileClick 0 0 (handleSelectTool School emptyCity) = Inr schoolCity"
proof -
  have "tileAt (grid (handleSelectTool School emptyCity)) 0 0
     = Some \<lparr>tile_x = 0, tile_y = 0, buildingType = NoneB, variant = None, level = 1\<rparr>"
    using tileAt_emptyCity by (simp add: handleSelectTool_def)
  then show ?thesis
    by (simp add: handleTileClick_def GRID_SIZE_def Let_def schoolCity_def handleSelectTool_def
        city_defs cornerTile_def)
qed

lemma housingCap_emptyCity: "housingCap (grid emptyCity) = 0"
proof -
  have "filter (\<lambda>t. buildingType t = Residential) (concat createInitialGrid) = []"
    using initial_tiles_empty by (fastforce simp: filter_empty_conv)
  then show ?thesis
    by (simp add: housingCap_def fold_capTile city_defs)
qed

lemma housingCap_cityWith:
  "housingCap (grid (cityWith b n)) = (if b = Residential then 50 * real (levelOr1 (cornerTile b n)) else 0)"
  by (simp add: housingCap_def fold_capTile residential_cityWith)

lemma scan_cityWith:
  assumes "grid s = grid (cityWith b n)" and "b \<noteq> NoneB"
  shows "fst (scanTiles (grid s)) = incomeGen (BUILDINGS b) * real (levelOr1 (cornerTile b n))"
    and "fst (snd (scanTiles (grid s))) = popGen (BUILDINGS b) * real (levelOr1 (cornerTile b n))"
  using assms
  by (simp_all add: scanTiles_def fold_scanTile_income fold_scanTile_pop occupied_cityWith
      cornerTile_def)

lemma incomeGen_nonneg:
  "b \<noteq> School \<Longrightarrow> b \<noteq> Hospital \<Longrightarrow> 0 \<le> incomeGen (BUILDINGS b)"
  by (cases b) simp_all

subsection \<open>The selection always points at a building\<close>

lemma selection_ok_frame:
  "selectedTilePos s' = selectedTilePos s \<Longrightarrow> grid s' = grid s \<Longrightarrow>
   selection_ok s' = selection_ok s"
  by (simp add: selection_ok_def split: option.splits)

lemma selection_ok_initialGame: "selection_ok initialGame"
  by (simp add: selection_ok_def initialGame_def)

lemma selection_ok_handleStart: "selection_ok (handleStart e s) = selection_ok s"
  by (rule selection_ok_frame) (simp_all add: handleStart_def)

lemma selection_ok_handleSelectTool: "selection_ok (handleSelectTool tool s)"
  by (simp add: selection_ok_def handleSelectTool_def)

lemma selection_ok_closeSelection: "selection_ok (closeSelection s)"
  by (simp add: selection_ok_def closeSelection_def)

lemma selection_ok_tick: "selection_ok (tick rnd s) = selection_ok s"
  by (rule selection_ok_frame) (simp_all add: tick_def)

lemma selection_ok_handleStake: "selection_ok (handleStake a s) = selection_ok s"
  by (rule selection_ok_frame) (simp_all add: handleStake_def addTransaction_def)

lemma selection_ok_handleUnstake: "selection_ok (handleUnstake a s) = selection_ok s"
  by (rule selection_ok_frame) (simp_all add: handleUnstake_def addTransaction_def)

lemma selection_ok_handleVote:
  assumes "handleVote i s = Inr s'"
  shows "selection_ok s' = selection_ok s"
proof (rule selection_ok_frame)
  show "selectedTilePos s' = selectedTilePos s"
    using assms
    by (auto simp: handleVote_def applyEffect_def addTransaction_def addNewsItem_def Let_def
        split: option.splits if_splits)
  show "grid s' = grid s"
    using assms
    by (auto simp: handleVote_def applyEffect_def addTransaction_def addNewsItem_def Let_def
        split: option.splits if_splits)
qed

lemma selection_ok_handleUpgrade:
  assumes "selection_ok s" and "handleUpgrade s = Inr s'"
  shows "selection_ok s'"
proof (cases "selectedTilePos s")
  case None
  with assms show ?thesis
    by (simp add: handleUpgrade_def)
next
  case (Some p)
  obtain x y where p: "p = (x, y)"
    by (cases p)
  from assms(1) Some p obtain tile where t: "tileAt (grid s) x y = Some tile"
    and occ: "buildingType tile \<noteq> NoneB" "buildingType tile \<noteq> Road"
    by (auto simp: selection_ok_def split: option.splits)
  from assms(2) Some p t tileAt_setTile [OF t, of _ x y] occ show ?thesis
    by (auto simp: handleUpgrade_def Let_def addNewsItem_def selection_ok_def
        split: if_splits)
qed

lemma selection_ok_handleTileClick:
  assumes "selection_ok s" and "handleTileClick x y s = Inr s'"
  shows "selection_ok s'"
proof (cases "tileAt (grid s) x y")
  case None
  with assms show ?thesis
    by (auto simp: handleTileClick_def split: if_splits)
next
  case (Some tile)
  have other: "selectedTilePos s = Some (a, b) \<Longrightarrow> (a, b) \<noteq> (x, y) \<Longrightarrow>
      tileAt (setTile (grid s) x y t') a b = tileAt (grid s) a b" for a b t'
    using tileAt_setTile [OF Some, of t' a b] by auto
  from assms Some show ?thesis
    by (auto simp: handleTileClick_def Let_def addNewsItem_def selection_ok_def other
        split: if_splits option.splits)
qed

lemma selection_ok_handleConnectWallet:
  "selection_ok (handleConnectWallet s) = selection_ok s"
  by (rule selection_ok_frame) (simp_all add: handleConnectWallet_def addNewsItem_def)

lemma reachable_selection_ok: "reachable s \<Longrightarrow> selection_ok s"
proof (induction rule: reachable.induct)
  case reachable_init
  show ?case by (rule selection_ok_initialGame)
next
  case (reachable_click s x y s')
  then show ?case by (simp add: selection_ok_handleTileClick)
next
  case (reachable_upgrade s s')
  then show ?case by (simp add: selection_ok_handleUpgrade)
next
  case (reachable_vote s i s')
  then show ?case by (simp add: selection_ok_handleVote)
next
  case (reachable_other s s')
  from reachable_other.hyps(3,2) have "selection_ok s' = selection_ok s"
    by (rule selection_ok_frame)
  with reachable_other.IH show ?case by simp
qed (simp_all add: selection_ok_handleStart selection_ok_tick selection_ok_handleSelectTool
      selection_ok_closeSelection selection_ok_handleConnectWallet selection_ok_handleStake
      selection_ok_handleUnstake)

subsection \<open>Levels are at least 1\<close>

lemma levelOr1_level: "1 \<le> level tile \<Longrightarrow> levelOr1 tile = level tile"
  by (simp add: levelOr1_def)

lemma set_concat_setTile:
  "set (concat (setTile g x y t)) \<subseteq> insert t (set (concat g))"
proof (cases "nat y < length g")
  case False
  then have "setTile g x y t = g"
    by (simp add: setTile_def list_update_beyond)
  then show ?thesis
    by auto
next
  case True
  have "set ((g ! nat y)[nat x := t]) \<subseteq> insert t (set (g ! nat y))"
    by (rule set_update_subset_insert)
  moreover have "set (g ! nat y) \<subseteq> set (concat g)"
  proof -
    from True have "g ! nat y \<in> set g"
      by simp
    then show ?thesis
      by auto
  qed
  moreover have "set (g[nat y := (g ! nat y)[nat x := t]])
      \<subseteq> insert ((g ! nat y)[nat x := t]) (set g)"
    by (rule set_update_subset_insert)
  ultimately show ?thesis
    by (auto simp: setTile_def)
qed

lemma levels_ok_setTile:
  "levels_ok g \<Longrightarrow> 1 \<le> level t \<Longrightarrow> levels_ok (setTile g x y t)"
  using set_concat_setTile [of g x y t] by (auto simp: levels_ok_def)

lemma levels_ok_initial: "levels_ok createInitialGrid"
  by (auto simp: levels_ok_def createInitialGrid_def)

lemma levels_ok_handleTileClick:
  assumes "levels_ok (grid s)" and "handleTileClick x y s = Inr s'"
  shows "levels_ok (grid s')"
  using assms
  by (auto simp: handleTileClick_def Let_def addNewsItem_def levels_ok_setTile
      split: if_splits option.splits)

lemma levels_ok_handleUpgrade:
  assumes "levels_ok (grid s)" and "handleUpgrade s = Inr s'"
  shows "levels_ok (grid s')"
  using assms
  by (auto simp: handleUpgrade_def Let_def addNewsItem_def levels_ok_setTile
      split: if_splits option.splits)

lemma grid_handleVote: "handleVote i s = Inr s' \<Longrightarrow> grid s' = grid s"
  by (auto simp: handleVote_def applyEffect_def addTransaction_def addNewsItem_def Let_def
      split: option.splits if_splits)

lemma reachable_levels_ok: "reachable s \<Longrightarrow> levels_ok (grid s)"
proof (induction rule: reachable.induct)
  case reachable_init
  show ?case by (simp add: initialGame_def levels_ok_initial)
next
  case (reachable_click s x y s')
  then show ?case by (simp add: levels_ok_handleTileClick)
next
  case (reachable_upgrade s s')
  then show ?case by (simp add: levels_ok_handleUpgrade)
next
  case (reachable_vote s i s')
  then show ?case by (simp add: grid_handleVote)
qed (simp_all add: handleStart_def tick_def handleSelectTool_def closeSelection_def
      handleConnectWallet_def handleStake_def handleUnstake_def addNewsItem_def
      addTransaction_def)

lemma tileAt_in_grid:
  assumes "tileAt g x y = Some t"
  shows "t \<in> set (concat g)"
proof -
  from assms have "nat y < length g" "nat x < length (g ! nat y)" "t = g ! nat y ! nat x"
    by (simp_all add: tileAt_def split: if_splits)
  then have "g ! nat y \<in> set g" "t \<in> set (g ! nat y)"
    by simp_all
  then show ?thesis
    by auto
qed

lemma reachable_level:
  assumes "reachable s" and "tileAt (grid s) x y = Some tile"
  shows "1 \<le> level tile" and "levelOr1 tile = level tile"
proof -
  from assms(1) have "\<forall>t \<in> set (concat (grid s)). 1 \<le> level t"
    using reachable_levels_ok by (simp add: levels_ok_def)
  with tileAt_in_grid [OF assms(2)] show "1 \<le> level tile"
    by blast
  then show "levelOr1 tile = level tile"
    by (rule levelOr1_level)
qed

subsection \<open>A reachable state with a selected house of level 2\<close>

lemma setTile_overwrite:
  "tileAt g x y = Some t \<Longrightarrow> setTile (setTile g x y a) x y b = setTile g x y b"
  by (simp add: tileAt_def setTile_def split: if_splits)

lemma reachable_emptyCity: "reachable emptyCity"
  unfolding emptyCity_def by (intro reachable_start reachable_init)

lemma reachable_house_selected:
  assumes "grid s = grid (cityWith Residential 2)" and "selectedTilePos s = Some (0, 0)"
  shows "reachable s"
proof -
  let ?e1 = "handleSelectTool Residential emptyCity"
  have r1: "reachable ?e1"
    by (intro reachable_tool reachable_emptyCity)
  have f1: "gameStarted ?e1" "selectedTool ?e1 = Residential" "money (stats ?e1) = 1000"
    by (simp_all add: handleSelectTool_def city_defs)
  have t1: "tileAt (grid ?e1) 0 0 = Some (cornerTile NoneB 1)"
    using tileAt_emptyCity by (simp add: handleSelectTool_def cornerTile_def)
  define e2 where "e2 = ?e1
      \<lparr>selectedTilePos := None,
       stats := (stats ?e1)\<lparr>money := money (stats ?e1) - cost (BUILDINGS Residential)\<rparr>,
       grid := setTile (grid ?e1) 0 0 ((cornerTile NoneB 1)\<lparr>buildingType := Residential, level := 1\<rparr>)\<rparr>"
  have c1: "handleTileClick 0 0 ?e1 = Inr e2"
    using f1 t1 by (simp add: handleTileClick_def GRID_SIZE_def e2_def cornerTile_def)
  have r2: "reachable e2"
    using reachable_click [OF r1 c1] .
  have g2: "grid e2 = grid (cityWith Residential 1)"
    by (simp add: e2_def handleSelectTool_def cityWith_def emptyCity_def handleStart_def
        initialGame_def cornerTile_def)
  have f2: "gameStarted e2" "selectedTool e2 = Residential" "money (stats e2) = 900"
    using f1 by (simp_all add: e2_def)
  have t2: "tileAt (grid e2) 0 0 = Some (cornerTile Residential 1)"
    unfolding g2 by (rule tileAt_cityWith)
  let ?e3 = "e2\<lparr>selectedTilePos := Some (0, 0)\<rparr>"
  have c2: "handleTileClick 0 0 e2 = Inr ?e3"
    using f2 t2 by (simp add: handleTileClick_def GRID_SIZE_def cornerTile_def)
  have r3: "reachable ?e3"
    using reachable_click [OF r2 c2] .
  have u: "upgradeCost (cornerTile Residential 1) = 150"
    by (simp add: upgradeCost_def levelOr1_def cornerTile_def)
  define e4 where "e4 = addNewsItem
      \<lparr>news_text = UpgradedToLevel (name (BUILDINGS Residential)) 2, news_type = positive\<rparr>
      (?e3\<lparr>stats := (stats ?e3)\<lparr>money := money (stats ?e3) - 150\<rparr>,
           grid := setTile (grid ?e3) 0 0 ((cornerTile Residential 1)\<lparr>level := 2\<rparr>)\<rparr>)"
  have c3: "handleUpgrade ?e3 = Inr e4"
    using f2 t2 u
    by (simp add: handleUpgrade_def e4_def levelOr1_def cornerTile_def numeral_2_eq_2)
  have r4: "reachable e4"
    using reachable_upgrade [OF r3 c3] .
  have "grid e4 = setTile (grid (cityWith Residential 1)) 0 0 (cornerTile Residential 2)"
    by (simp add: e4_def addNewsItem_def g2 cornerTile_def)
  also have "\<dots> = grid (cityWith Residential 2)"
    using setTile_overwrite [OF tileAt_initial [of 0 0]] by (simp add: cityWith_def)
  finally have g4: "grid s = grid e4"
    using assms(1) by simp
  have "selectedTilePos e4 = Some (0, 0)"
    by (simp add: e4_def addNewsItem_def)
  with assms(2) have "selectedTilePos s = selectedTilePos e4"
    by simp
  with r4 g4 show ?thesis
    by (rule reachable_other)
qed

lemma upgradeCost_Residential_2:
  "buildingType tile = Residential \<Longrightarrow> level tile = 2 \<Longrightarrow> upgradeCost tile = 225"
  by (simp add: upgradeCost_def levelOr1_def power2_eq_square)

subsection \<open>Rounding to doubles, and the staking examples\<close>

lemma rne_nonneg: "0 \<le> x \<Longrightarrow> 0 \<le> rne x"
  by (auto simp: rne_def Let_def)

lemma round64_nonneg: "0 \<le> x \<Longrightarrow> 0 \<le> round64 x"
  by (simp add: round64_def Let_def rne_nonneg)

lemma round64_scaled:
  assumes lo: "2 ^ 52 \<le> \<bar>x\<bar> * 2 ^ k" and hi: "\<bar>x\<bar> * 2 ^ k < 2 ^ 53" and k: "k \<le> 1074"
  shows "round64 x = of_int (rne (x * 2 ^ k)) / 2 ^ k"
proof -
  have p: "(2::real) powr (- real k) = 1 / 2 ^ k"
    by (simp add: powr_minus powr_realpow inverse_eq_divide)
  have nz: "x \<noteq> 0"
  proof
    assume "x = 0"
    with lo show False by simp
  qed
  then have ax: "0 < \<bar>x\<bar>"
    by simp
  have l0: "2 ^ 52 / 2 ^ k \<le> \<bar>x\<bar>"
    using lo by (simp add: pos_divide_le_eq)
  have h0: "\<bar>x\<bar> < 2 ^ 53 / 2 ^ k"
    using hi by (simp add: pos_less_divide_eq)
  have "real_of_int (52 - int k) = 52 - real k"
    by simp
  then have e1: "2 powr real_of_int (52 - int k) = 2 ^ 52 / 2 ^ k"
    by (simp only: powr_diff powr_realpow) (simp add: powr_realpow [of 2 52, simplified])
  have "real_of_int (52 - int k + 1) = 53 - real k"
    by simp
  then have e2: "2 powr real_of_int (52 - int k + 1) = 2 ^ 53 / 2 ^ k"
    by (simp only: powr_diff powr_realpow) (simp add: powr_realpow [of 2 53, simplified])
  have l: "2 powr real_of_int (52 - int k) \<le> \<bar>x\<bar>"
    unfolding e1 by (rule l0)
  have h: "\<bar>x\<bar> < 2 powr real_of_int (52 - int k + 1)"
    unfolding e2 by (rule h0)
  from l h have "\<lfloor>log 2 \<bar>x\<bar>\<rfloor> = 52 - int k"
    using floor_log_eq_powr_iff [of "\<bar>x\<bar>" 2 "52 - int k"] ax by simp
  then have e: "max (\<lfloor>log 2 \<bar>x\<bar>\<rfloor> - 52) (- 1074) = - int k"
    using k by simp
  from nz show ?thesis
    by (simp add: round64_def e p)
qed

lemma tenth_val: "tenth = 3602879701896397 / 2 ^ 55"
  unfolding tenth_def
  by (subst round64_scaled [where k = 56]) (simp_all add: rne_def)


lemma rne_of_int: "rne (of_int m) = m"
  by (simp add: rne_def)

lemma round64_of_nat:
  assumes "n < 2 ^ 53"
  shows "round64 (real n) = real n"
proof (cases "n = 0")
  case True
  then show ?thesis
    by (simp add: round64_def)
next
  case False
  define k where "k = (LEAST k. 2 ^ 52 \<le> n * 2 ^ k)"
  have ex: "2 ^ 52 \<le> n * 2 ^ 52"
    using False by simp
  then have lo: "2 ^ 52 \<le> n * 2 ^ k"
    unfolding k_def by (rule LeastI)
  have k52: "k \<le> 52"
    unfolding k_def using ex by (rule Least_le)
  have hi: "n * 2 ^ k < 2 ^ 53"
  proof (cases k)
    case 0
    with assms show ?thesis by simp
  next
    case (Suc j)
    have "\<not> 2 ^ 52 \<le> n * 2 ^ j"
      using not_less_Least [of j "\<lambda>k. 2 ^ 52 \<le> n * 2 ^ k"] Suc by (simp add: k_def)
    then have "n * 2 ^ j < 2 ^ 52"
      by simp
    then have "2 * (n * 2 ^ j) < 2 * 2 ^ 52"
      by simp
    with Suc show ?thesis
      by (simp add: mult.commute mult.left_commute)
  qed
  have lo': "2 ^ 52 \<le> \<bar>real n\<bar> * 2 ^ k"
  proof -
    from lo have "real (2 ^ 52) \<le> real (n * 2 ^ k)"
      by (rule iffD2 [OF of_nat_le_iff])
    then show ?thesis by simp
  qed
  have hi': "\<bar>real n\<bar> * 2 ^ k < 2 ^ 53"
  proof -
    from hi have "real (n * 2 ^ k) < real (2 ^ 53)"
      by (rule iffD2 [OF of_nat_less_iff])
    then show ?thesis by simp
  qed
  have "real n * 2 ^ k = of_int (int (n * 2 ^ k))"
    by simp
  then have "rne (real n * 2 ^ k) = int (n * 2 ^ k)"
    by (simp only: rne_of_int)
  with round64_scaled [OF lo' hi'] k52 show ?thesis
    by simp
qed

lemma round64_Nats: "x \<in> \<nat> \<Longrightarrow> x < 2 ^ 53 \<Longrightarrow> round64 x = x"
proof -
  assume "x \<in> \<nat>" and b: "x < 2 ^ 53"
  then obtain n where n: "x = real n"
    by (auto elim: Nats_cases)
  with b have "real n < real (2 ^ 53)"
    by simp
  then have "n < 2 ^ 53"
    by (rule iffD1 [OF of_nat_less_iff])
  with n show ?thesis
    by (simp add: round64_of_nat)
qed

lemma Nats_diff_real: "a \<in> \<nat> \<Longrightarrow> b \<in> \<nat> \<Longrightarrow> a \<le> b \<Longrightarrow> b - a \<in> (\<nat> :: real set)"
proof -
  assume "a \<in> \<nat>" "b \<in> \<nat>" "a \<le> b"
  then obtain m n where "a = real m" "b = real n" "m \<le> n"
    by (auto elim!: Nats_cases)
  then have "b - a = real (n - m)"
    by simp
  then show ?thesis
    by (simp only: of_nat_in_Nats)
qed

lemma web3_connected:
  "web3State (handleConnectWallet emptyCity)
     = \<lparr>isConnected = True, address = Some ''0x71C...9A23'', skyBalance = 100,
        stakedSky = 0, skyPrice = 50, blockNumber = 1024500\<rparr>"
  by (simp add: handleConnectWallet_def addNewsItem_def city_defs)

lemma web3_handleStake:
  "amount \<le> skyBalance (web3State s) \<Longrightarrow>
   web3State (handleStake amount s) = (web3State s)
     \<lparr>skyBalance := round64 (skyBalance (web3State s) - amount),
      stakedSky := round64 (stakedSky (web3State s) + amount)\<rparr>"
  by (simp add: handleStake_def addTransaction_def)

lemma stakedOnce_val:
  "skyBalance (web3State stakedOnce) = 3514918771674317 / 2 ^ 45"
  "stakedSky (web3State stakedOnce) = 3602879701896397 / 2 ^ 55"
proof -
  have f: "tenth \<le> skyBalance (web3State (handleConnectWallet emptyCity))"
    by (simp add: web3_connected tenth_val)
  have b: "round64 (100 - tenth) = 3514918771674317 / 2 ^ 45"
    unfolding tenth_val by (subst round64_scaled [where k = 46]) (simp_all add: rne_def)
  have s: "round64 (0 + tenth) = 3602879701896397 / 2 ^ 55"
    unfolding tenth_val by (subst round64_scaled [where k = 56]) (simp_all add: rne_def)
  show "skyBalance (web3State stakedOnce) = 3514918771674317 / 2 ^ 45"
    "stakedSky (web3State stakedOnce) = 3602879701896397 / 2 ^ 55"
    using b s by (simp_all add: stakedOnce_def web3_handleStake [OF f] web3_connected)
qed

lemma stakedTwice_val:
  "skyBalance (web3State stakedTwice) = 1755700167232717 / 2 ^ 44"
  "stakedSky (web3State stakedTwice) = 3602879701896397 / 2 ^ 54"
proof -
  have f: "tenth \<le> skyBalance (web3State stakedOnce)"
    by (simp add: stakedOnce_val tenth_val)
  have b: "round64 (3514918771674317 / 2 ^ 45 - tenth) = 1755700167232717 / 2 ^ 44"
    unfolding tenth_val by (subst round64_scaled [where k = 46]) (simp_all add: rne_def)
  have s: "round64 (3602879701896397 / 2 ^ 55 + tenth) = 3602879701896397 / 2 ^ 54"
    unfolding tenth_val by (subst round64_scaled [where k = 55]) (simp_all add: rne_def)
  show "skyBalance (web3State stakedTwice) = 1755700167232717 / 2 ^ 44"
    "stakedSky (web3State stakedTwice) = 3602879701896397 / 2 ^ 54"
    using b s by (simp_all add: stakedTwice_def web3_handleStake [OF f] stakedOnce_val)
qed

lemma stake_step:
  assumes "skyBalance (web3State s) = b" and "stakedSky (web3State s) = c"
    and "tenth \<le> b" and "round64 (b - tenth) = b'" and "round64 (c + tenth) = c'"
  shows "skyBalance (web3State (handleStake tenth s)) = b'"
    and "stakedSky (web3State (handleStake tenth s)) = c'"
  using assms by (simp_all add: handleStake_def addTransaction_def)

lemma stakedEight_val:
  "skyBalance (web3State stakedEight) = 436286213901517 / 2 ^ 42"
  "stakedSky (web3State stakedEight) = 7205759403792793 / 2 ^ 53"
proof -
  note v2 = stakedTwice_val
  let ?s3 = "handleStake tenth stakedTwice"
  have b3: "round64 (1755700167232717 / 2 ^ 44 - tenth) = 3507881897256551 / 2 ^ 45"
    unfolding tenth_val by (subst round64_scaled [where k = 46]) (simp_all add: rne_def)
  have c3: "round64 (3602879701896397 / 2 ^ 54 + tenth) = 1351079888211149 / 2 ^ 52"
    unfolding tenth_val by (subst round64_scaled [where k = 54]) (simp_all add: rne_def)
  have f3: "tenth \<le> 1755700167232717 / 2 ^ 44"
    by (simp add: tenth_val)
  note v3 = stake_step [OF v2 f3 b3 c3]
  let ?s4 = "handleStake tenth ?s3"
  have b4: "round64 (3507881897256551 / 2 ^ 45 - tenth) = 876090865011917 / 2 ^ 43"
    unfolding tenth_val by (subst round64_scaled [where k = 46]) (simp_all add: rne_def)
  have c4: "round64 (1351079888211149 / 2 ^ 52 + tenth) = 3602879701896397 / 2 ^ 53"
    unfolding tenth_val by (subst round64_scaled [where k = 54]) (simp_all add: rne_def)
  have f4: "tenth \<le> 3507881897256551 / 2 ^ 45"
    by (simp add: tenth_val)
  note v4 = stake_step [OF v3 f4 b4 c4]
  let ?s5 = "handleStake tenth ?s4"
  have b5: "round64 (876090865011917 / 2 ^ 43 - tenth) = 3500845022838785 / 2 ^ 45"
    unfolding tenth_val by (subst round64_scaled [where k = 46]) (simp_all add: rne_def)
  have c5: "round64 (3602879701896397 / 2 ^ 53 + tenth) = 1 / 2 ^ 1"
    unfolding tenth_val by (subst round64_scaled [where k = 53]) (simp_all add: rne_def)
  have f5: "tenth \<le> 876090865011917 / 2 ^ 43"
    by (simp add: tenth_val)
  note v5 = stake_step [OF v4 f5 b5 c5]
  let ?s6 = "handleStake tenth ?s5"
  have b6: "round64 (3500845022838785 / 2 ^ 45 - tenth) = 1748663292814951 / 2 ^ 44"
    unfolding tenth_val by (subst round64_scaled [where k = 46]) (simp_all add: rne_def)
  have c6: "round64 (1 / 2 ^ 1 + tenth) = 5404319552844595 / 2 ^ 53"
    unfolding tenth_val by (subst round64_scaled [where k = 53]) (simp_all add: rne_def)
  have f6: "tenth \<le> 3500845022838785 / 2 ^ 45"
    by (simp add: tenth_val)
  note v6 = stake_step [OF v5 f6 b6 c6]
  let ?s7 = "handleStake tenth ?s6"
  have b7: "round64 (1748663292814951 / 2 ^ 44 - tenth) = 3493808148421019 / 2 ^ 45"
    unfolding tenth_val by (subst round64_scaled [where k = 46]) (simp_all add: rne_def)
  have c7: "round64 (5404319552844595 / 2 ^ 53 + tenth) = 3152519739159347 / 2 ^ 52"
    unfolding tenth_val by (subst round64_scaled [where k = 53]) (simp_all add: rne_def)
  have f7: "tenth \<le> 1748663292814951 / 2 ^ 44"
    by (simp add: tenth_val)
  note v7 = stake_step [OF v6 f7 b7 c7]
  let ?s8 = "handleStake tenth ?s7"
  have b8: "round64 (3493808148421019 / 2 ^ 45 - tenth) = 436286213901517 / 2 ^ 42"
    unfolding tenth_val by (subst round64_scaled [where k = 46]) (simp_all add: rne_def)
  have c8: "round64 (3152519739159347 / 2 ^ 52 + tenth) = 7205759403792793 / 2 ^ 53"
    unfolding tenth_val by (subst round64_scaled [where k = 53]) (simp_all add: rne_def)
  have f8: "tenth \<le> 3493808148421019 / 2 ^ 45"
    by (simp add: tenth_val)
  note v8 = stake_step [OF v7 f8 b8 c8]
  from v8 show "skyBalance (web3State stakedEight) = 436286213901517 / 2 ^ 42"
    "stakedSky (web3State stakedEight) = 7205759403792793 / 2 ^ 53"
    by (simp_all add: stakedEight_def)
qed

lemma unstake_refused_after_eight_stakes:
  "round64 (8 / 10) = 3602879701896397 / 2 ^ 52"
  "stakedSky (web3State stakedEight) < round64 (8 / 10)"
  "handleUnstake (round64 (8 / 10)) stakedEight = stakedEight"
proof -
  show e: "round64 (8 / 10) = 3602879701896397 / 2 ^ 52"
    by (subst round64_scaled [where k = 53]) (simp_all add: rne_def)
  show l: "stakedSky (web3State stakedEight) < round64 (8 / 10)"
    unfolding e stakedEight_val by simp
  then show "handleUnstake (round64 (8 / 10)) stakedEight = stakedEight"
    by (simp add: handleUnstake_def)
qed

subsection \<open>A goal exists only while AI generation is enabled\<close>





section \<open>The tick\<close>

text \<open>
  Claim C1, amended. The tick sets the treasury to \<open>money + dailyIncome\<close>. When the tax
  rate is not negative and the grid holds no School and no Hospital tile, the income
  is not negative and the tick does not decrease the treasury. (School and Hospital have
  the negative income rates -5 and -10 in the catalog: with such a tile the passive
  income itself can lower the treasury, as the counterexample after the theorem shows.)
\<close>

theorem tick_money_nondecreasing:
  assumes "0 \<le> taxRate (gameModifiers s)"
    and "\<forall>t \<in> set (concat (grid s)). buildingType t \<noteq> School \<and> buildingType t \<noteq> Hospital"
  shows "money (stats (tick rnd s)) = money (stats s) + dailyIncome s
         \<and> money (stats s) \<le> money (stats (tick rnd s))"
proof -
  have "0 \<le> (\<Sum>t\<leftarrow>filter occupied (concat (grid s)).
               incomeGen (BUILDINGS (buildingType t)) * real (levelOr1 t))"
    using assms(2) by (intro sum_list_nonneg) (auto simp: incomeGen_nonneg)
  then have "0 \<le> dailyIncome s"
    using assms(1) by (simp add: dailyIncome_def scanTiles_def fold_scanTile_income)
  then show ?thesis
    by (simp add: tick_def newStats_def)
qed

theorem tick_money_nondecreasing_witness:
  "0 \<le> taxRate (gameModifiers (cityWith Commercial 2))
   \<and> School \<notin> buildingType ` set (concat (grid (cityWith Commercial 2)))
   \<and> Hospital \<notin> buildingType ` set (concat (grid (cityWith Commercial 2)))
   \<and> money (stats (cityWith Commercial 2)) = 1000
   \<and> money (stats (tick (1 / 2) (cityWith Commercial 2))) = 1030"
proof -
  have h1: "0 \<le> taxRate (gameModifiers (cityWith Commercial 2))"
    by (simp add: city_defs)
  have h2: "\<forall>t \<in> set (concat (grid (cityWith Commercial 2))).
         buildingType t \<noteq> School \<and> buildingType t \<noteq> Hospital"
    using tiles_cityWith [of _ Commercial 2] by fastforce
  have m: "money (stats (cityWith Commercial 2)) = 1000"
    by (simp add: city_defs)
  have "fst (scanTiles (grid (cityWith Commercial 2))) = 30"
    by (simp add: scanTiles_def fold_scanTile_income occupied_cityWith cornerTile_def levelOr1_def)
  then have i: "dailyIncome (cityWith Commercial 2) = 30"
    by (simp add: dailyIncome_def city_defs)
  from h2 have h3: "School \<notin> buildingType ` set (concat (grid (cityWith Commercial 2)))"
    "Hospital \<notin> buildingType ` set (concat (grid (cityWith Commercial 2)))"
    by (metis imageE)+
  from tick_money_nondecreasing [OF h1 h2, of "1 / 2"] h1 h3 m i show ?thesis
    by simp
qed

theorem tick_income_School_counterexample:
  "handleTileClick 0 0 (handleSelectTool School emptyCity) = Inr schoolCity
   \<and> money (stats schoolCity) = 500 \<and> money (stats (tick (1 / 2) schoolCity)) = 495
   \<and> money (stats (tick (1 / 2) schoolCity)) < money (stats schoolCity)"
proof -
  have "grid schoolCity = grid (cityWith School 1)"
    by (simp add: schoolCity_def)
  then have "fst (scanTiles (grid schoolCity)) = - 5"
    by (simp add: scanTiles_def fold_scanTile_income occupied_cityWith cornerTile_def levelOr1_def)
  then have "dailyIncome schoolCity = - 5"
    by (simp add: dailyIncome_def schoolCity_def city_defs)
  then show ?thesis
    using schoolCity_reached by (simp add: tick_def newStats_def schoolCity_def)
qed

text \<open>
  Claim C2. On every tick the value after the clamp, \<open>min (prior + growth) housingCap\<close>,
  is at most the housing capacity, and it is the new population in every case but the
  exception: when the housing capacity is 0 and the prior population is positive, the new
  population is \<open>max 0 (prior - 5)\<close>.
\<close>

theorem tick_population_clamp:
  "clampPopulation (population (stats s)) (dailyPopGrowth s) (housingCap (grid s))
     = min (population (stats s) + dailyPopGrowth s) (housingCap (grid s))
   \<and> clampPopulation (population (stats s)) (dailyPopGrowth s) (housingCap (grid s))
       \<le> housingCap (grid s)
   \<and> (housingCap (grid s) = 0 \<and> population (stats s) > 0 \<longrightarrow>
      population (stats (tick rnd s)) = max 0 (population (stats s) - 5))
   \<and> (\<not> (housingCap (grid s) = 0 \<and> population (stats s) > 0) \<longrightarrow>
      population (stats (tick rnd s))
        = min (population (stats s) + dailyPopGrowth s) (housingCap (grid s))
      \<and> population (stats (tick rnd s)) \<le> housingCap (grid s))"
  by (auto simp: tick_def newStats_def newPopulation_def clampPopulation_def Let_def)

theorem tick_population_clamp_witness:
  "housingCap (grid (emptyCity\<lparr>stats := \<lparr>money = 1000, population = 3, day = 1\<rparr>\<rparr>)) = 0
   \<and> population (stats (emptyCity\<lparr>stats := \<lparr>money = 1000, population = 3, day = 1\<rparr>\<rparr>)) > 0
   \<and> population (stats (tick (1 / 2)
        (emptyCity\<lparr>stats := \<lparr>money = 1000, population = 3, day = 1\<rparr>\<rparr>))) = 0
   \<and> \<not> (housingCap (grid (cityWith Residential 1)) = 0
          \<and> population (stats (cityWith Residential 1)) > 0)
   \<and> population (stats (tick (1 / 2) (cityWith Residential 1))) = 5
   \<and> housingCap (grid (cityWith Residential 1)) = 50"
proof -
  let ?X = "emptyCity\<lparr>stats := \<lparr>money = 1000, population = 3, day = 1\<rparr>\<rparr>"
  let ?Y = "cityWith Residential 1"
  have x1: "housingCap (grid ?X) = 0"
    using housingCap_emptyCity by simp
  have x2: "population (stats ?X) = 3"
    by simp
  have y1: "housingCap (grid ?Y) = 50"
    by (simp add: housingCap_cityWith levelOr1_def cornerTile_def)
  have y2: "population (stats ?Y) = 0"
    by (simp add: city_defs)
  have "fst (snd (scanTiles (grid ?Y))) = 5"
    using scan_cityWith(2) [of ?Y Residential 1] by (simp add: levelOr1_def cornerTile_def)
  then have y3: "dailyPopGrowth ?Y = 5"
    by (simp add: dailyPopGrowth_def city_defs)
  from tick_population_clamp [of ?X "1 / 2"] tick_population_clamp [of ?Y "1 / 2"]
    x1 x2 y1 y2 y3
  show ?thesis
    by simp
qed

text \<open>
  Claim C3. The deltas of a tick: the income is the sum over the occupied tiles of
  \<open>incomeGen * level\<close>, times the tax rate; the population growth is the sum over the
  occupied tiles of \<open>popGen * level\<close>, times the growth rate, and then, exactly when the
  staked amount is positive, times \<open>1 + staked / 1000\<close>; the housing capacity is the sum
  over the Residential tiles of \<open>50 * level\<close>; the new stats are built from these, and
  the day goes up by exactly 1. Here \<open>level\<close> is the source's \<^verbatim>\<open>tile.level || 1\<close>.
\<close>

theorem tick_deltas:
  "dailyIncome s =
     (\<Sum>t\<leftarrow>filter occupied (concat (grid s)).
        incomeGen (BUILDINGS (buildingType t)) * real (levelOr1 t)) * taxRate (gameModifiers s)
   \<and> dailyPopGrowth s =
     (if stakedSky (web3State s) > 0
      then (\<Sum>t\<leftarrow>filter occupied (concat (grid s)).
              popGen (BUILDINGS (buildingType t)) * real (levelOr1 t))
            * growthRate (gameModifiers s) * (1 + stakedSky (web3State s) / 1000)
      else (\<Sum>t\<leftarrow>filter occupied (concat (grid s)).
              popGen (BUILDINGS (buildingType t)) * real (levelOr1 t))
            * growthRate (gameModifiers s))
   \<and> housingCap (grid s) =
     (\<Sum>t\<leftarrow>filter (\<lambda>t. buildingType t = Residential) (concat (grid s)).
        50 * real (levelOr1 t))
   \<and> stats (tick rnd s) =
     \<lparr>money = money (stats s) + dailyIncome s,
      population = newPopulation (population (stats s)) (dailyPopGrowth s) (housingCap (grid s)),
      day = day (stats s) + 1\<rparr>
   \<and> day (stats (tick rnd s)) = day (stats s) + 1"
  by (simp add: dailyIncome_def dailyPopGrowth_def housingCap_def scanTiles_def
      fold_scanTile_income fold_scanTile_pop fold_capTile tick_def newStats_def Let_def)

theorem tick_deltas_witness:
  "stakedSky (web3State ((cityWith Residential 2)
      \<lparr>web3State := (web3State (cityWith Residential 2))\<lparr>stakedSky := 100\<rparr>,
       gameModifiers := \<lparr>taxRate = 1.2, growthRate = 1.5\<rparr>\<rparr>)) > 0
   \<and> dailyPopGrowth ((cityWith Residential 2)
      \<lparr>web3State := (web3State (cityWith Residential 2))\<lparr>stakedSky := 100\<rparr>,
       gameModifiers := \<lparr>taxRate = 1.2, growthRate = 1.5\<rparr>\<rparr>) = 16.5
   \<and> housingCap (grid ((cityWith Residential 2)
      \<lparr>web3State := (web3State (cityWith Residential 2))\<lparr>stakedSky := 100\<rparr>,
       gameModifiers := \<lparr>taxRate = 1.2, growthRate = 1.5\<rparr>\<rparr>)) = 100
   \<and> \<not> stakedSky (web3State (cityWith Entertainment 3)) > 0
   \<and> dailyIncome (cityWith Entertainment 3) = 75
   \<and> dailyPopGrowth (cityWith Entertainment 3) = 6
   \<and> day (stats (tick (1 / 2) (cityWith Entertainment 3))) = 2"
proof -
  let ?X = "(cityWith Residential 2)
      \<lparr>web3State := (web3State (cityWith Residential 2))\<lparr>stakedSky := 100\<rparr>,
       gameModifiers := \<lparr>taxRate = 1.2, growthRate = 1.5\<rparr>\<rparr>"
  let ?Y = "cityWith Entertainment 3"
  have gx: "grid ?X = grid (cityWith Residential 2)"
    by simp
  have x1: "stakedSky (web3State ?X) = 100" "growthRate (gameModifiers ?X) = 1.5"
    by simp_all
  have y1: "stakedSky (web3State ?Y) = 0" "growthRate (gameModifiers ?Y) = 1"
    "taxRate (gameModifiers ?Y) = 1" "day (stats ?Y) = 1"
    by (simp_all add: city_defs)
  have fx: "filter occupied (concat (grid ?X)) = [cornerTile Residential 2]"
    "filter (\<lambda>t. buildingType t = Residential) (concat (grid ?X)) = [cornerTile Residential 2]"
    by (simp_all add: occupied_cityWith residential_cityWith)
  have fy: "filter occupied (concat (grid ?Y)) = [cornerTile Entertainment 3]"
    by (simp add: occupied_cityWith)
  from tick_deltas [of ?X "1 / 2"] have
    "dailyPopGrowth ?X = 16.5 \<and> housingCap (grid ?X) = 100"
    unfolding fx x1 by (simp add: cornerTile_def levelOr1_def)
  moreover from tick_deltas [of ?Y "1 / 2"] have
    "dailyIncome ?Y = 75 \<and> dailyPopGrowth ?Y = 6 \<and> day (stats (tick (1 / 2) ?Y)) = 2"
    unfolding fy y1 by (simp add: cornerTile_def levelOr1_def)
  ultimately show ?thesis
    using x1 y1 by simp
qed



text \<open>
  Claim C7. On a tick with the wallet connected, and \<open>rnd\<close> the value of
  \<^verbatim>\<open>Math.random()\<close> (in \<open>[0, 1)\<close>): the balance grows by \<open>(population / 100) * 0.1\<close> for
  the population the tick started from, not the one it has just computed; the price
  becomes \<open>max 10 (price + d)\<close> for the perturbation \<open>d = (rnd - 0.5) * 2\<close>, which lies
  in \<open>[-1, 1]\<close>, so the price is at least 10; the block number goes up by exactly 1.
\<close>

theorem tick_mining:
  assumes "isConnected (web3State s)" and "0 \<le> rnd" and "rnd < 1"
  shows "web3State (tick rnd s) = (web3State s)
           \<lparr>skyBalance := skyBalance (web3State s) + (population (stats s) / 100) * 0.1,
            skyPrice := max 10 (skyPrice (web3State s) + (rnd - 0.5) * 2),
            blockNumber := blockNumber (web3State s) + 1\<rparr>
         \<and> - 1 \<le> (rnd - 0.5) * 2 \<and> (rnd - 0.5) * 2 \<le> 1
         \<and> 10 \<le> skyPrice (web3State (tick rnd s))
         \<and> blockNumber (web3State (tick rnd s)) = blockNumber (web3State s) + 1"
  using assms by (simp add: tick_def mine_def)

theorem tick_mining_witness:
  "isConnected (web3State (handleConnectWallet
      ((cityWith Residential 2)\<lparr>stats := \<lparr>money = 1000, population = 50, day = 4\<rparr>\<rparr>)))
   \<and> (0::real) \<le> 1 / 4 \<and> (1::real) / 4 < 1
   \<and> population (stats (tick (1 / 4) (handleConnectWallet
      ((cityWith Residential 2)\<lparr>stats := \<lparr>money = 1000, population = 50, day = 4\<rparr>\<rparr>)))) = 60
   \<and> skyBalance (web3State (tick (1 / 4) (handleConnectWallet
      ((cityWith Residential 2)\<lparr>stats := \<lparr>money = 1000, population = 50, day = 4\<rparr>\<rparr>))))
       = 100 + 50 / 100 * 0.1
   \<and> skyPrice (web3State (tick (1 / 4) (handleConnectWallet
      ((cityWith Residential 2)\<lparr>stats := \<lparr>money = 1000, population = 50, day = 4\<rparr>\<rparr>)))) = 49.5
   \<and> blockNumber (web3State (tick (1 / 4) (handleConnectWallet
      ((cityWith Residential 2)\<lparr>stats := \<lparr>money = 1000, population = 50, day = 4\<rparr>\<rparr>))))
       = 1024501"
proof -
  let ?C = "(cityWith Residential 2)\<lparr>stats := \<lparr>money = 1000, population = 50, day = 4\<rparr>\<rparr>"
  let ?M = "handleConnectWallet ?C"
  have w: "web3State ?M = \<lparr>isConnected = True, address = Some ''0x71C...9A23'',
      skyBalance = 100, stakedSky = 0, skyPrice = 50, blockNumber = 1024500\<rparr>"
    by (simp add: handleConnectWallet_def addNewsItem_def city_defs)
  have c: "isConnected (web3State ?M)"
    by (simp add: w)
  have st: "stats ?M = \<lparr>money = 1000, population = 50, day = 4\<rparr>"
    "gameModifiers ?M = \<lparr>taxRate = 1, growthRate = 1\<rparr>"
    by (simp_all add: handleConnectWallet_def addNewsItem_def city_defs)
  have g: "grid ?M = grid (cityWith Residential 2)"
    by (simp add: handleConnectWallet_def addNewsItem_def)
  have cap: "housingCap (grid ?M) = 100"
    unfolding g by (simp add: housingCap_cityWith levelOr1_def cornerTile_def)
  have "fst (snd (scanTiles (grid ?M))) = 10"
    using scan_cityWith(2) [OF g] by (simp add: levelOr1_def cornerTile_def)
  then have "dailyPopGrowth ?M = 10"
    by (simp add: dailyPopGrowth_def st w)
  then have p: "population (stats (tick (1 / 4) ?M)) = 60"
    by (simp add: tick_def newStats_def newPopulation_def clampPopulation_def st cap)
  from tick_mining [OF c, of "1 / 4"] have
    "web3State (tick (1 / 4) ?M) = (web3State ?M)
           \<lparr>skyBalance := skyBalance (web3State ?M) + (population (stats ?M) / 100) * 0.1,
            skyPrice := max 10 (skyPrice (web3State ?M) + (1 / 4 - 0.5) * 2),
            blockNumber := blockNumber (web3State ?M) + 1\<rparr>"
    by simp
  then have "skyBalance (web3State (tick (1 / 4) ?M)) = 100 + 50 / 100 * 0.1
     \<and> skyPrice (web3State (tick (1 / 4) ?M)) = 49.5
     \<and> blockNumber (web3State (tick (1 / 4) ?M)) = 1024501"
    unfolding w st by simp
  with c p show ?thesis
    by simp
qed

section \<open>The handlers\<close>

text \<open>
  Claim C5. In every state the handlers can reach: \<^verbatim>\<open>handleUpgrade\<close> acts on the
  selected tile; without a selection it changes nothing; with one, the tile is occupied
  (the selection never points at an empty tile) and the cost is
  \<open>floor (cost(type) * 1.5 ^ level)\<close> for the level of the tile; when the treasury is
  below the cost, grid and stats stay as they are (only the notice "Insufficient funds
  for upgrade." is added to the news feed); otherwise exactly the cost is deducted and
  the level of the tile goes up by 1, its building type and every other tile staying as
  they are. For a Residential tile of level 2 the cost is 225.
\<close>

theorem handleUpgrade_spec:
  assumes "reachable s"
  shows "(selectedTilePos s = None \<longrightarrow> handleUpgrade s = Inr s)
   \<and> (\<forall>x y. selectedTilePos s = Some (x, y) \<longrightarrow>
        (\<exists>tile. tileAt (grid s) x y = Some tile \<and> buildingType tile \<noteq> NoneB
           \<and> upgradeCost tile
               = of_int \<lfloor>cost (BUILDINGS (buildingType tile)) * 1.5 ^ level tile\<rfloor>
           \<and> (money (stats s) < upgradeCost tile \<longrightarrow>
                handleUpgrade s
                  = Inr (s\<lparr>newsFeed := slice_last 12 (newsFeed s)
                       @ [\<lparr>news_text = InsufficientFundsForUpgrade, news_type = negative\<rparr>]\<rparr>))
           \<and> (upgradeCost tile \<le> money (stats s) \<longrightarrow>
                (\<exists>s'. handleUpgrade s = Inr s'
                   \<and> stats s' = (stats s)\<lparr>money := money (stats s) - upgradeCost tile\<rparr>
                   \<and> tileAt (grid s') x y = Some (tile\<lparr>level := level tile + 1\<rparr>)
                   \<and> (\<forall>x' y'. x' \<noteq> x \<or> y' \<noteq> y \<longrightarrow>
                         tileAt (grid s') x' y' = tileAt (grid s) x' y')))))
   \<and> (\<forall>tile. buildingType tile = Residential \<and> level tile = 2 \<longrightarrow> upgradeCost tile = 225)"
proof -
  have a: "selectedTilePos s = None \<longrightarrow> handleUpgrade s = Inr s"
    by (simp add: handleUpgrade_def)
  have b: "\<exists>tile. tileAt (grid s) x y = Some tile \<and> buildingType tile \<noteq> NoneB
           \<and> upgradeCost tile
               = of_int \<lfloor>cost (BUILDINGS (buildingType tile)) * 1.5 ^ level tile\<rfloor>
           \<and> (money (stats s) < upgradeCost tile \<longrightarrow>
                handleUpgrade s
                  = Inr (s\<lparr>newsFeed := slice_last 12 (newsFeed s)
                       @ [\<lparr>news_text = InsufficientFundsForUpgrade, news_type = negative\<rparr>]\<rparr>))
           \<and> (upgradeCost tile \<le> money (stats s) \<longrightarrow>
                (\<exists>s'. handleUpgrade s = Inr s'
                   \<and> stats s' = (stats s)\<lparr>money := money (stats s) - upgradeCost tile\<rparr>
                   \<and> tileAt (grid s') x y = Some (tile\<lparr>level := level tile + 1\<rparr>)
                   \<and> (\<forall>x' y'. x' \<noteq> x \<or> y' \<noteq> y \<longrightarrow>
                         tileAt (grid s') x' y' = tileAt (grid s) x' y')))"
    if sel: "selectedTilePos s = Some (x, y)" for x y
  proof -
    from assms have "selection_ok s"
      by (rule reachable_selection_ok)
    with sel obtain tile where t: "tileAt (grid s) x y = Some tile"
      and occ: "buildingType tile \<noteq> NoneB"
      by (auto simp: selection_ok_def split: option.splits)
    have lv: "levelOr1 tile = level tile"
      using assms t by (rule reachable_level)
    have c: "upgradeCost tile
        = of_int \<lfloor>cost (BUILDINGS (buildingType tile)) * 1.5 ^ level tile\<rfloor>"
      by (simp add: upgradeCost_def lv)
    have low: "money (stats s) < upgradeCost tile \<longrightarrow>
        handleUpgrade s
          = Inr (s\<lparr>newsFeed := slice_last 12 (newsFeed s)
               @ [\<lparr>news_text = InsufficientFundsForUpgrade, news_type = negative\<rparr>]\<rparr>)"
      using sel t by (simp add: handleUpgrade_def addNewsItem_def)
    let ?s' = "addNewsItem
        \<lparr>news_text = UpgradedToLevel (name (BUILDINGS (buildingType tile))) (level tile + 1),
         news_type = positive\<rparr>
        (s\<lparr>stats := (stats s)\<lparr>money := money (stats s) - upgradeCost tile\<rparr>,
           grid := setTile (grid s) x y (tile\<lparr>level := level tile + 1\<rparr>)\<rparr>)"
    have g: "grid ?s' = setTile (grid s) x y (tile\<lparr>level := level tile + 1\<rparr>)"
      "stats ?s' = (stats s)\<lparr>money := money (stats s) - upgradeCost tile\<rparr>"
      by (simp_all add: addNewsItem_def)
    have ok: "upgradeCost tile \<le> money (stats s) \<longrightarrow> handleUpgrade s = Inr ?s'"
      using sel t by (simp add: handleUpgrade_def Let_def lv)
    have "tileAt (grid ?s') x y = Some (tile\<lparr>level := level tile + 1\<rparr>)"
      "\<forall>x' y'. x' \<noteq> x \<or> y' \<noteq> y \<longrightarrow> tileAt (grid ?s') x' y' = tileAt (grid s) x' y'"
      unfolding g using tileAt_setTile [OF t] by auto
    with ok g(2) have
      "upgradeCost tile \<le> money (stats s) \<longrightarrow>
         (\<exists>s'. handleUpgrade s = Inr s'
            \<and> stats s' = (stats s)\<lparr>money := money (stats s) - upgradeCost tile\<rparr>
            \<and> tileAt (grid s') x y = Some (tile\<lparr>level := level tile + 1\<rparr>)
            \<and> (\<forall>x' y'. x' \<noteq> x \<or> y' \<noteq> y \<longrightarrow>
                  tileAt (grid s') x' y' = tileAt (grid s) x' y'))"
      by blast
    with t occ c low show ?thesis
      by blast
  qed
  from a b upgradeCost_Residential_2 show ?thesis
    by blast
qed

theorem handleUpgrade_spec_witness:
  "reachable ((cityWith Residential 2)\<lparr>selectedTilePos := Some (0, 0),
      stats := \<lparr>money = 224, population = 20, day = 9\<rparr>\<rparr>)
   \<and> upgradeCost (cornerTile Residential 2) = 225
   \<and> handleUpgrade ((cityWith Residential 2)\<lparr>selectedTilePos := Some (0, 0),
        stats := \<lparr>money = 224, population = 20, day = 9\<rparr>\<rparr>)
       = Inr ((cityWith Residential 2)\<lparr>selectedTilePos := Some (0, 0),
           stats := \<lparr>money = 224, population = 20, day = 9\<rparr>,
           newsFeed := [\<lparr>news_text = InsufficientFundsForUpgrade, news_type = negative\<rparr>]\<rparr>)
   \<and> reachable ((cityWith Residential 2)\<lparr>selectedTilePos := Some (0, 0),
      stats := \<lparr>money = 225, population = 20, day = 9\<rparr>\<rparr>)
   \<and> (\<exists>s'. handleUpgrade ((cityWith Residential 2)\<lparr>selectedTilePos := Some (0, 0),
          stats := \<lparr>money = 225, population = 20, day = 9\<rparr>\<rparr>) = Inr s'
          \<and> money (stats s') = 0
          \<and> tileAt (grid s') 0 0 = Some (cornerTile Residential 3))"
proof -
  let ?A = "(cityWith Residential 2)\<lparr>selectedTilePos := Some (0, 0),
      stats := \<lparr>money = 224, population = 20, day = 9\<rparr>\<rparr>"
  let ?B = "(cityWith Residential 2)\<lparr>selectedTilePos := Some (0, 0),
      stats := \<lparr>money = 225, population = 20, day = 9\<rparr>\<rparr>"
  have ta: "tileAt (grid ?A) 0 0 = Some (cornerTile Residential 2)"
    and tb: "tileAt (grid ?B) 0 0 = Some (cornerTile Residential 2)"
    using tileAt_cityWith [of Residential 2] by simp_all
  have oka: "reachable ?A" and okb: "reachable ?B"
    by (rule reachable_house_selected; simp)+
  have sel: "selectedTilePos ?A = Some (0, 0)" "selectedTilePos ?B = Some (0, 0)"
    by simp_all
  have c: "upgradeCost (cornerTile Residential 2) = 225"
    using handleUpgrade_spec [OF oka] by (simp add: cornerTile_def)
  have l: "level (cornerTile Residential 2) + 1 = 3"
    "(cornerTile Residential 2)\<lparr>level := 3\<rparr> = cornerTile Residential 3"
    by (simp_all add: cornerTile_def)
  have nf: "newsFeed ?A = []"
    by (simp add: city_defs)
  from handleUpgrade_spec [OF oka] sel(1) ta c
  have "handleUpgrade ?A
      = Inr (?A\<lparr>newsFeed := slice_last 12 (newsFeed ?A)
            @ [\<lparr>news_text = InsufficientFundsForUpgrade, news_type = negative\<rparr>]\<rparr>)"
    by auto
  then have ra: "handleUpgrade ?A
      = Inr (?A\<lparr>newsFeed := [\<lparr>news_text = InsufficientFundsForUpgrade, news_type = negative\<rparr>]\<rparr>)"
    unfolding nf by (simp add: slice_last_def)
  from handleUpgrade_spec [OF okb] sel(2) tb c l
  have rb: "\<exists>s'. handleUpgrade ?B = Inr s'
          \<and> money (stats s') = 0
          \<and> tileAt (grid s') 0 0 = Some (cornerTile Residential 3)"
    by auto
  from oka okb c ra rb show ?thesis
    by simp
qed

text \<open>
  Claim C6. \<^verbatim>\<open>handleVote\<close> without an active proposal changes nothing. With one, and an
  option index in range, the proposal slot is cleared and the effect of the option is
  applied, whatever the treasury holds: festival sets the growth rate to 2 and takes
  exactly 500 from the treasury; tax break sets the tax rate to 1.2; population boom sets
  the growth rate to 1.5; austerity sets both rates to 0.8. The modifier not named by an
  effect keeps its value, and only the festival touches the stats.
\<close>

theorem handleVote_effects:
  "(activeProposal s = None \<longrightarrow> handleVote i s = Inr s)
   \<and> (\<forall>p. activeProposal s = Some p \<and> i < length (options p) \<longrightarrow>
        (\<exists>s'. handleVote i s = Inr s' \<and> activeProposal s' = None
           \<and> grid s' = grid s \<and> web3State s' = web3State s
           \<and> (effectType (options p ! i) = festival \<longrightarrow>
                gameModifiers s' = (gameModifiers s)\<lparr>growthRate := 2\<rparr>
                \<and> stats s' = (stats s)\<lparr>money := money (stats s) - 500\<rparr>)
           \<and> (effectType (options p ! i) = tax_break \<longrightarrow>
                gameModifiers s' = (gameModifiers s)\<lparr>taxRate := 1.2\<rparr> \<and> stats s' = stats s)
           \<and> (effectType (options p ! i) = population_boom \<longrightarrow>
                gameModifiers s' = (gameModifiers s)\<lparr>growthRate := 1.5\<rparr> \<and> stats s' = stats s)
           \<and> (effectType (options p ! i) = austerity \<longrightarrow>
                gameModifiers s' = (gameModifiers s)\<lparr>taxRate := 0.8, growthRate := 0.8\<rparr>
                \<and> stats s' = stats s)))"
  by (cases "activeProposal s")
     (auto simp: handleVote_def applyEffect_def addNewsItem_def addTransaction_def Let_def)

theorem handleVote_effects_witness:
  "activeProposal emptyCity = None
   \<and> handleVote 0 emptyCity = Inr emptyCity
   \<and> activeProposal (emptyCity\<lparr>activeProposal := Some festivalProposal,
        stats := \<lparr>money = 200, population = 0, day = 3\<rparr>\<rparr>) = Some festivalProposal
   \<and> 0 < length (options festivalProposal)
   \<and> effectType (options festivalProposal ! 0) = festival
   \<and> (\<exists>s'. handleVote 0 (emptyCity\<lparr>activeProposal := Some festivalProposal,
                 stats := \<lparr>money = 200, population = 0, day = 3\<rparr>\<rparr>) = Inr s'
          \<and> activeProposal s' = None
          \<and> growthRate (gameModifiers s') = 2
          \<and> taxRate (gameModifiers s') = 1
          \<and> money (stats s') = - 300)"
proof -
  let ?P = "emptyCity\<lparr>activeProposal := Some festivalProposal,
        stats := \<lparr>money = 200, population = 0, day = 3\<rparr>\<rparr>"
  have n: "activeProposal emptyCity = None"
    by (simp add: city_defs)
  with handleVote_effects [of emptyCity 0] have v: "handleVote 0 emptyCity = Inr emptyCity"
    by simp
  have p: "activeProposal ?P = Some festivalProposal" "0 < length (options festivalProposal)"
    "effectType (options festivalProposal ! 0) = festival"
    by (simp_all add: festivalProposal_def)
  have m: "gameModifiers ?P = \<lparr>taxRate = 1, growthRate = 1\<rparr>"
    "stats ?P = \<lparr>money = 200, population = 0, day = 3\<rparr>"
    by (simp_all add: city_defs)
  from handleVote_effects [of ?P 0] p obtain s' where
    "handleVote 0 ?P = Inr s'" "activeProposal s' = None"
    "gameModifiers s' = (gameModifiers ?P)\<lparr>growthRate := 2\<rparr>"
    "stats s' = (stats ?P)\<lparr>money := money (stats ?P) - 500\<rparr>"
    by blast
  then have "\<exists>s'. handleVote 0 ?P = Inr s'
          \<and> activeProposal s' = None
          \<and> growthRate (gameModifiers s') = 2
          \<and> taxRate (gameModifiers s') = 1
          \<and> money (stats s') = - 300"
    unfolding m by simp
  with n v p show ?thesis
    by simp
qed

text \<open>
  Claim C8. A click with the bulldoze tool on a tile of the grid: on an empty tile it
  changes nothing at all; on an occupied tile with less than 5 in the treasury, grid and
  stats stay as they are (only the notice "Cannot afford demolition costs." is added to
  the news feed); on an occupied tile with at least 5, exactly 5 is deducted, the tile
  becomes empty with level 1, every other tile stays as it is, and the same click once
  more changes nothing.
\<close>

theorem demolish_spec:
  assumes "gameStarted s" and "selectedTool s = NoneB"
    and "0 \<le> x" and "x < 15" and "0 \<le> y" and "y < 15"
    and "tileAt (grid s) x y = Some tile"
  shows "(buildingType tile = NoneB \<longrightarrow> handleTileClick x y s = Inr s)
   \<and> (buildingType tile \<noteq> NoneB \<and> money (stats s) < 5 \<longrightarrow>
        handleTileClick x y s
          = Inr (s\<lparr>newsFeed := slice_last 12 (newsFeed s)
                   @ [\<lparr>news_text = CannotAffordDemolition, news_type = negative\<rparr>]\<rparr>))
   \<and> (buildingType tile \<noteq> NoneB \<and> 5 \<le> money (stats s) \<longrightarrow>
        (\<exists>s'. handleTileClick x y s = Inr s'
           \<and> stats s' = (stats s)\<lparr>money := money (stats s) - 5\<rparr>
           \<and> tileAt (grid s') x y = Some (tile\<lparr>buildingType := NoneB, level := 1\<rparr>)
           \<and> (\<forall>x' y'. x' \<noteq> x \<or> y' \<noteq> y \<longrightarrow> tileAt (grid s') x' y' = tileAt (grid s) x' y')
           \<and> handleTileClick x y s' = Inr s'))"
proof -
  have a: "buildingType tile = NoneB \<longrightarrow> handleTileClick x y s = Inr s"
    using assms by (simp add: handleTileClick_def GRID_SIZE_def)
  have b: "buildingType tile \<noteq> NoneB \<and> money (stats s) < 5 \<longrightarrow>
        handleTileClick x y s
          = Inr (s\<lparr>newsFeed := slice_last 12 (newsFeed s)
                   @ [\<lparr>news_text = CannotAffordDemolition, news_type = negative\<rparr>]\<rparr>)"
    using assms by (simp add: handleTileClick_def GRID_SIZE_def demolishCost_def addNewsItem_def)
  have c: "\<exists>s'. handleTileClick x y s = Inr s'
           \<and> stats s' = (stats s)\<lparr>money := money (stats s) - 5\<rparr>
           \<and> tileAt (grid s') x y = Some (tile\<lparr>buildingType := NoneB, level := 1\<rparr>)
           \<and> (\<forall>x' y'. x' \<noteq> x \<or> y' \<noteq> y \<longrightarrow> tileAt (grid s') x' y' = tileAt (grid s) x' y')
           \<and> handleTileClick x y s' = Inr s'"
    if occ: "buildingType tile \<noteq> NoneB" and m: "5 \<le> money (stats s)"
  proof -
    let ?s' = "s\<lparr>selectedTilePos :=
                    (if selectedTilePos s = Some (x, y) then None else selectedTilePos s),
                  grid := setTile (grid s) x y (tile\<lparr>buildingType := NoneB, level := 1\<rparr>),
                  stats := (stats s)\<lparr>money := money (stats s) - demolishCost\<rparr>\<rparr>"
    have 1: "handleTileClick x y s = Inr ?s'"
      using assms occ m by (simp add: handleTileClick_def GRID_SIZE_def demolishCost_def)
    have 2: "tileAt (grid ?s') x' y'
        = (if x' = x \<and> y' = y then Some (tile\<lparr>buildingType := NoneB, level := 1\<rparr>)
           else tileAt (grid s) x' y')" for x' y'
      using tileAt_setTile [OF assms(7)] by simp
    have 3: "handleTileClick x y ?s' = Inr ?s'"
      using assms 2 [of x y] by (simp add: handleTileClick_def GRID_SIZE_def)
    have 4: "stats ?s' = (stats s)\<lparr>money := money (stats s) - 5\<rparr>"
      by (simp add: demolishCost_def)
    have 5: "tileAt (grid ?s') x y = Some (tile\<lparr>buildingType := NoneB, level := 1\<rparr>)"
      using 2 [of x y] by simp
    have 6: "\<forall>x' y'. x' \<noteq> x \<or> y' \<noteq> y \<longrightarrow> tileAt (grid ?s') x' y' = tileAt (grid s) x' y'"
      using 2 by auto
    from 1 3 4 5 6 show ?thesis
      by blast
  qed
  from a b c show ?thesis
    by blast
qed

theorem demolish_spec_witness:
  "gameStarted (handleSelectTool NoneB (cityWith Commercial 1))
   \<and> selectedTool (handleSelectTool NoneB (cityWith Commercial 1)) = NoneB
   \<and> tileAt (grid (handleSelectTool NoneB (cityWith Commercial 1))) 0 0
       = Some (cornerTile Commercial 1)
   \<and> buildingType (cornerTile Commercial 1) \<noteq> NoneB
   \<and> 5 \<le> money (stats (handleSelectTool NoneB (cityWith Commercial 1)))
   \<and> (\<exists>s'. handleTileClick 0 0 (handleSelectTool NoneB (cityWith Commercial 1)) = Inr s'
          \<and> money (stats s') = 995
          \<and> tileAt (grid s') 0 0 = Some (cornerTile NoneB 1)
          \<and> handleTileClick 0 0 s' = Inr s')"
proof -
  let ?X = "handleSelectTool NoneB (cityWith Commercial 1)"
  have h: "gameStarted ?X" "selectedTool ?X = NoneB"
    by (simp_all add: handleSelectTool_def city_defs)
  have t: "tileAt (grid ?X) 0 0 = Some (cornerTile Commercial 1)"
    using tileAt_cityWith [of Commercial 1] by (simp add: handleSelectTool_def)
  have m: "money (stats ?X) = 1000"
    by (simp add: handleSelectTool_def city_defs)
  have o: "buildingType (cornerTile Commercial 1) \<noteq> NoneB"
    by (simp add: cornerTile_def)
  have e: "(cornerTile Commercial 1)\<lparr>buildingType := NoneB, level := 1\<rparr> = cornerTile NoneB 1"
    by (simp add: cornerTile_def)
  from demolish_spec [OF h _ _ _ _ t] o m
  have "\<exists>s'. handleTileClick 0 0 ?X = Inr s'
           \<and> stats s' = (stats ?X)\<lparr>money := money (stats ?X) - 5\<rparr>
           \<and> tileAt (grid s') 0 0 = Some ((cornerTile Commercial 1)\<lparr>buildingType := NoneB, level := 1\<rparr>)
           \<and> (\<forall>x' y'. x' \<noteq> 0 \<or> y' \<noteq> 0 \<longrightarrow> tileAt (grid s') x' y' = tileAt (grid ?X) x' y')
           \<and> handleTileClick 0 0 s' = Inr s'"
    by simp
  then obtain s' where "handleTileClick 0 0 ?X = Inr s'"
    "stats s' = (stats ?X)\<lparr>money := money (stats ?X) - 5\<rparr>"
    "tileAt (grid s') 0 0 = Some (cornerTile NoneB 1)"
    "handleTileClick 0 0 s' = Inr s'"
    unfolding e by blast
  then have "\<exists>s'. handleTileClick 0 0 ?X = Inr s'
          \<and> money (stats s') = 995
          \<and> tileAt (grid s') 0 0 = Some (cornerTile NoneB 1)
          \<and> handleTileClick 0 0 s' = Inr s'"
    using m by simp
  with h t o m show ?thesis
    by simp
qed

text \<open>
  Claim C9. A click on a tile that holds a building other than a road, with a tool other
  than the bulldozer: stats (so the treasury) and grid (so the clicked tile) stay as they
  are; at most the selection changes.
\<close>

theorem select_click_frame:
  assumes "tileAt (grid s) x y = Some tile"
    and "buildingType tile \<noteq> NoneB" and "buildingType tile \<noteq> Road"
    and "selectedTool s \<noteq> NoneB"
  shows "\<exists>s'. handleTileClick x y s = Inr s'
           \<and> money (stats s') = money (stats s)
           \<and> stats s' = stats s
           \<and> grid s' = grid s
           \<and> tileAt (grid s') x y = Some tile
           \<and> (if gameStarted s \<and> 0 \<le> x \<and> x < 15 \<and> 0 \<le> y \<and> y < 15
               then s' = s\<lparr>selectedTilePos := Some (x, y)\<rparr> else s' = s)"
  using assms by (simp add: handleTileClick_def GRID_SIZE_def)

theorem select_click_frame_witness:
  "tileAt (grid (handleSelectTool Residential (cityWith Commercial 1))) 0 0
       = Some (cornerTile Commercial 1)
   \<and> buildingType (cornerTile Commercial 1) \<noteq> NoneB
   \<and> buildingType (cornerTile Commercial 1) \<noteq> Road
   \<and> selectedTool (handleSelectTool Residential (cityWith Commercial 1)) \<noteq> NoneB
   \<and> handleTileClick 0 0 (handleSelectTool Residential (cityWith Commercial 1))
       = Inr ((handleSelectTool Residential (cityWith Commercial 1))
               \<lparr>selectedTilePos := Some (0, 0)\<rparr>)"
proof -
  let ?Y = "handleSelectTool Residential (cityWith Commercial 1)"
  have t: "tileAt (grid ?Y) 0 0 = Some (cornerTile Commercial 1)"
    using tileAt_cityWith [of Commercial 1] by (simp add: handleSelectTool_def)
  have o: "buildingType (cornerTile Commercial 1) \<noteq> NoneB"
    "buildingType (cornerTile Commercial 1) \<noteq> Road"
    by (simp_all add: cornerTile_def)
  have h: "selectedTool ?Y \<noteq> NoneB" "gameStarted ?Y"
    by (simp_all add: handleSelectTool_def city_defs)
  from select_click_frame [OF t o h(1)] h(2)
  have "handleTileClick 0 0 ?Y = Inr (?Y\<lparr>selectedTilePos := Some (0, 0)\<rparr>)"
    by auto
  with t o h show ?thesis
    by simp
qed

text \<open>
  Claim C10, amended. For a non-negative amount and non-negative balances: a stake with
  less than the amount in the balance, and an unstake with less than the amount staked,
  change nothing at all; a funded stake or unstake writes to \<open>skyBalance\<close> and
  \<open>stakedSky\<close> the difference and the sum with the amount, each rounded to the nearest
  double, and appends one entry to the transaction log, every other field of the state
  staying as it is. Both fields stay non-negative. The sum of the two fields is preserved
  when neither operation rounds, as with whole amounts and balances below \<open>2 ^ 53\<close>;
  otherwise it can change, as after the second stake of 0.1 from a balance of 100.
\<close>

theorem stake_unstake_rounded:
  assumes "0 \<le> amount"
    and "0 \<le> skyBalance (web3State s)" and "0 \<le> stakedSky (web3State s)"
  shows "(skyBalance (web3State s) < amount \<longrightarrow> handleStake amount s = s)
   \<and> (stakedSky (web3State s) < amount \<longrightarrow> handleUnstake amount s = s)
   \<and> (amount \<le> skyBalance (web3State s) \<longrightarrow>
        handleStake amount s =
          s\<lparr>web3State := (web3State s)
               \<lparr>skyBalance := round64 (skyBalance (web3State s) - amount),
                stakedSky := round64 (stakedSky (web3State s) + amount)\<rparr>,
            transactions := slice_last 19 (transactions s)
               @ [\<lparr>tx_type = STAKE, tx_details = Staked amount,
                    tx_block = blockNumber (web3State s)\<rparr>]\<rparr>)
   \<and> (amount \<le> stakedSky (web3State s) \<longrightarrow>
        handleUnstake amount s =
          s\<lparr>web3State := (web3State s)
               \<lparr>skyBalance := round64 (skyBalance (web3State s) + amount),
                stakedSky := round64 (stakedSky (web3State s) - amount)\<rparr>,
            transactions := slice_last 19 (transactions s)
               @ [\<lparr>tx_type = UNSTAKE, tx_details = Unstaked amount,
                    tx_block = blockNumber (web3State s)\<rparr>]\<rparr>)
   \<and> (round64 (skyBalance (web3State s) - amount) = skyBalance (web3State s) - amount
        \<and> round64 (stakedSky (web3State s) + amount) = stakedSky (web3State s) + amount \<longrightarrow>
        skyBalance (web3State (handleStake amount s))
          + stakedSky (web3State (handleStake amount s))
        = skyBalance (web3State s) + stakedSky (web3State s))
   \<and> (round64 (skyBalance (web3State s) + amount) = skyBalance (web3State s) + amount
        \<and> round64 (stakedSky (web3State s) - amount) = stakedSky (web3State s) - amount \<longrightarrow>
        skyBalance (web3State (handleUnstake amount s))
          + stakedSky (web3State (handleUnstake amount s))
        = skyBalance (web3State s) + stakedSky (web3State s))
   \<and> (amount \<in> \<nat> \<and> skyBalance (web3State s) \<in> \<nat> \<and> stakedSky (web3State s) \<in> \<nat>
        \<and> skyBalance (web3State s) + stakedSky (web3State s) < 2 ^ 53 \<longrightarrow>
        skyBalance (web3State (handleStake amount s))
          + stakedSky (web3State (handleStake amount s))
        = skyBalance (web3State s) + stakedSky (web3State s)
        \<and> skyBalance (web3State (handleUnstake amount s))
          + stakedSky (web3State (handleUnstake amount s))
        = skyBalance (web3State s) + stakedSky (web3State s))
   \<and> 0 \<le> skyBalance (web3State (handleStake amount s))
   \<and> 0 \<le> stakedSky (web3State (handleStake amount s))
   \<and> 0 \<le> skyBalance (web3State (handleUnstake amount s))
   \<and> 0 \<le> stakedSky (web3State (handleUnstake amount s))"
proof -
  let ?b = "skyBalance (web3State s)" and ?c = "stakedSky (web3State s)"
  have whole: "skyBalance (web3State (handleStake amount s))
          + stakedSky (web3State (handleStake amount s)) = ?b + ?c
        \<and> skyBalance (web3State (handleUnstake amount s))
          + stakedSky (web3State (handleUnstake amount s)) = ?b + ?c"
    if n: "amount \<in> \<nat>" "?b \<in> \<nat>" "?c \<in> \<nat>" and lt: "?b + ?c < 2 ^ 53"
  proof -
    have 1: "amount \<le> ?b \<Longrightarrow> round64 (?b - amount) = ?b - amount"
      using n lt assms by (intro round64_Nats Nats_diff_real) simp_all
    have 2: "amount \<le> ?b \<Longrightarrow> round64 (?c + amount) = ?c + amount"
      using n lt assms by (intro round64_Nats Nats_add) simp_all
    have 3: "amount \<le> ?c \<Longrightarrow> round64 (?b + amount) = ?b + amount"
      using n lt assms by (intro round64_Nats Nats_add) simp_all
    have 4: "amount \<le> ?c \<Longrightarrow> round64 (?c - amount) = ?c - amount"
      using n lt assms by (intro round64_Nats Nats_diff_real) simp_all
    from 1 2 3 4 show ?thesis
      by (simp add: handleStake_def handleUnstake_def addTransaction_def)
  qed
  have rest: "(skyBalance (web3State s) < amount \<longrightarrow> handleStake amount s = s)
   \<and> (stakedSky (web3State s) < amount \<longrightarrow> handleUnstake amount s = s)
   \<and> (amount \<le> skyBalance (web3State s) \<longrightarrow>
        handleStake amount s =
          s\<lparr>web3State := (web3State s)
               \<lparr>skyBalance := round64 (skyBalance (web3State s) - amount),
                stakedSky := round64 (stakedSky (web3State s) + amount)\<rparr>,
            transactions := slice_last 19 (transactions s)
               @ [\<lparr>tx_type = STAKE, tx_details = Staked amount,
                    tx_block = blockNumber (web3State s)\<rparr>]\<rparr>)
   \<and> (amount \<le> stakedSky (web3State s) \<longrightarrow>
        handleUnstake amount s =
          s\<lparr>web3State := (web3State s)
               \<lparr>skyBalance := round64 (skyBalance (web3State s) + amount),
                stakedSky := round64 (stakedSky (web3State s) - amount)\<rparr>,
            transactions := slice_last 19 (transactions s)
               @ [\<lparr>tx_type = UNSTAKE, tx_details = Unstaked amount,
                    tx_block = blockNumber (web3State s)\<rparr>]\<rparr>)
   \<and> (round64 (skyBalance (web3State s) - amount) = skyBalance (web3State s) - amount
        \<and> round64 (stakedSky (web3State s) + amount) = stakedSky (web3State s) + amount \<longrightarrow>
        skyBalance (web3State (handleStake amount s))
          + stakedSky (web3State (handleStake amount s))
        = skyBalance (web3State s) + stakedSky (web3State s))
   \<and> (round64 (skyBalance (web3State s) + amount) = skyBalance (web3State s) + amount
        \<and> round64 (stakedSky (web3State s) - amount) = stakedSky (web3State s) - amount \<longrightarrow>
        skyBalance (web3State (handleUnstake amount s))
          + stakedSky (web3State (handleUnstake amount s))
        = skyBalance (web3State s) + stakedSky (web3State s))
   \<and> 0 \<le> skyBalance (web3State (handleStake amount s))
   \<and> 0 \<le> stakedSky (web3State (handleStake amount s))
   \<and> 0 \<le> skyBalance (web3State (handleUnstake amount s))
   \<and> 0 \<le> stakedSky (web3State (handleUnstake amount s))"
    using assms
    by (simp add: handleStake_def handleUnstake_def addTransaction_def round64_nonneg)
  from whole rest show ?thesis
    by blast
qed

theorem stake_unstake_rounded_witness:
  "(0::real) \<le> 40
   \<and> 0 \<le> skyBalance (web3State (handleConnectWallet emptyCity))
   \<and> 0 \<le> stakedSky (web3State (handleConnectWallet emptyCity))
   \<and> round64 (skyBalance (web3State (handleConnectWallet emptyCity)) - 40)
       = skyBalance (web3State (handleConnectWallet emptyCity)) - 40
   \<and> round64 (stakedSky (web3State (handleConnectWallet emptyCity)) + 40)
       = stakedSky (web3State (handleConnectWallet emptyCity)) + 40
   \<and> skyBalance (web3State (handleStake 40 (handleConnectWallet emptyCity))) = 60
   \<and> stakedSky (web3State (handleStake 40 (handleConnectWallet emptyCity))) = 40
   \<and> handleUnstake 40 (handleConnectWallet emptyCity) = handleConnectWallet emptyCity"
proof -
  let ?W = "handleConnectWallet emptyCity"
  have w: "skyBalance (web3State ?W) = 100" "stakedSky (web3State ?W) = 0"
    by (simp_all add: web3_connected)
  then have h: "0 \<le> skyBalance (web3State ?W)" "0 \<le> stakedSky (web3State ?W)"
    by simp_all
  have a: "(0::real) \<le> 40"
    by simp
  have r: "round64 60 = 60" "round64 40 = 40"
    by (subst round64_scaled [where k = 47], simp_all add: rne_def)+
  from stake_unstake_rounded [OF a h] have
    "handleUnstake 40 ?W = ?W"
    "skyBalance (web3State (handleStake 40 ?W)) + stakedSky (web3State (handleStake 40 ?W))
       = skyBalance (web3State ?W) + stakedSky (web3State ?W)"
    "handleStake 40 ?W =
          ?W\<lparr>web3State := (web3State ?W)
               \<lparr>skyBalance := round64 (skyBalance (web3State ?W) - 40),
                stakedSky := round64 (stakedSky (web3State ?W) + 40)\<rparr>,
            transactions := slice_last 19 (transactions ?W)
               @ [\<lparr>tx_type = STAKE, tx_details = Staked 40,
                    tx_block = blockNumber (web3State ?W)\<rparr>]\<rparr>"
    using w r by simp_all
  then show ?thesis
    using w r by simp
qed

theorem stake_sum_counterexample:
  "0 \<le> tenth
   \<and> 0 \<le> skyBalance (web3State stakedOnce) \<and> 0 \<le> stakedSky (web3State stakedOnce)
   \<and> tenth \<le> skyBalance (web3State stakedOnce)
   \<and> stakedTwice = handleStake tenth stakedOnce
   \<and> skyBalance (web3State stakedOnce) + stakedSky (web3State stakedOnce)
       \<noteq> skyBalance (web3State stakedTwice) + stakedSky (web3State stakedTwice)
   \<and> round64 (skyBalance (web3State stakedOnce) + stakedSky (web3State stakedOnce)) = 100
   \<and> round64 (skyBalance (web3State stakedTwice) + stakedSky (web3State stakedTwice))
       = 100 + 1 / 2 ^ 46"
proof -
  have 1: "round64 (3514918771674317 / 2 ^ 45 + 3602879701896397 / 2 ^ 55) = 100"
    by (subst round64_scaled [where k = 46]) (simp_all add: rne_def)
  have 2: "round64 (1755700167232717 / 2 ^ 44 + 3602879701896397 / 2 ^ 54) = 100 + 1 / 2 ^ 46"
    by (subst round64_scaled [where k = 46]) (simp_all add: rne_def)
  have a: "0 \<le> tenth" "0 \<le> skyBalance (web3State stakedOnce)"
    "0 \<le> stakedSky (web3State stakedOnce)" "tenth \<le> skyBalance (web3State stakedOnce)"
    by (simp_all add: stakedOnce_val tenth_val)
  have b: "stakedTwice = handleStake tenth stakedOnce"
    by (rule stakedTwice_def)
  have c: "skyBalance (web3State stakedOnce) + stakedSky (web3State stakedOnce)
       \<noteq> skyBalance (web3State stakedTwice) + stakedSky (web3State stakedTwice)"
    unfolding stakedOnce_val stakedTwice_val by simp
  have d: "round64 (skyBalance (web3State stakedOnce) + stakedSky (web3State stakedOnce)) = 100"
    "round64 (skyBalance (web3State stakedTwice) + stakedSky (web3State stakedTwice))
       = 100 + 1 / 2 ^ 46"
    unfolding stakedOnce_val stakedTwice_val by (rule 1, rule 2)
  from a b c d show ?thesis
    by blast
qed

end
